theory Spec2Isabelle
  imports Complex_Main
begin

section \<open>Payload values and Python failures\<close>

text \<open>
  The payloads handled by \<^verbatim>\<open>device.py\<close> and \<^verbatim>\<open>air_quality.py\<close> are decoded JSON:
  \<^verbatim>\<open>dict[str, Any]\<close>. Python's \<^verbatim>\<open>None\<close> is \<open>JNull\<close>. A JSON object is an association
  list read with \<open>map_of\<close>, its keys distinct as in a dict. No arithmetic is done on a float in the two files (it is only
  parsed, stored and copied), so a float payload is carried as a \<open>real\<close>.
\<close>

datatype json =
    JNull
  | JBool bool
  | JInt int
  | JFloat real
  | JStr string
  | JList "json list"
  | JDict "(string \<times> json) list"

datatype py_error =
  KeyError | ValueError | TypeError | AttributeError | NameError | RecursionError

text \<open>
  A method that assigns to \<^verbatim>\<open>self\<close> and may raise: \<open>Ok s\<close> is a normal return with the
  object in state \<open>s\<close>; \<open>Raise e s\<close> is the exception \<open>e\<close> reaching the caller, the object
  left in state \<open>s\<close> (assignments made before the raise stay made).
\<close>

datatype 's res = Ok 's | Raise py_error 's

fun state_of :: "'s res \<Rightarrow> 's" where
  "state_of (Ok s) = s"
| "state_of (Raise e s) = s"

fun returns :: "'s res \<Rightarrow> bool" where
  "returns (Ok s) = True"
| "returns (Raise e s) = False"

fun raised :: "'s res \<Rightarrow> py_error option" where
  "raised (Ok s) = None"
| "raised (Raise e s) = Some e"

text \<open>The statements of a method body, run in order; the first raise ends the call.\<close>

fun run_steps :: "('s \<Rightarrow> 's res) list \<Rightarrow> 's \<Rightarrow> 's res" where
  "run_steps [] s = Ok s"
| "run_steps (f # fs) s = (case f s of Ok s' \<Rightarrow> run_steps fs s' | Raise e s' \<Rightarrow> Raise e s')"

subsection \<open>Python operations on payload values\<close>

text \<open>\<^verbatim>\<open>d.get(k)\<close> on a dict: the value, or \<^verbatim>\<open>None\<close> when the key is missing.\<close>

definition dict_get :: "(string \<times> json) list \<Rightarrow> string \<Rightarrow> json" where
  "dict_get d k = (case map_of d k of Some v \<Rightarrow> v | None \<Rightarrow> JNull)"

text \<open>\<^verbatim>\<open>k in d\<close> on a dict.\<close>

definition dict_has :: "(string \<times> json) list \<Rightarrow> string \<Rightarrow> bool" where
  "dict_has d k = (map_of d k \<noteq> None)"

text \<open>\<^verbatim>\<open>v.get(k)\<close> on an arbitrary value: only a dict has the method.\<close>

fun py_get :: "json \<Rightarrow> string \<Rightarrow> py_error + json" where
  "py_get (JDict d) k = Inr (dict_get d k)"
| "py_get v k = Inl AttributeError"

text \<open>\<^verbatim>\<open>for x in v\<close>: the items visited; numbers, booleans and \<^verbatim>\<open>None\<close> are not iterable.\<close>

fun py_iter :: "json \<Rightarrow> py_error + json list" where
  "py_iter (JList xs) = Inr xs"
| "py_iter (JStr s) = Inr (map (\<lambda>ch. JStr [ch]) s)"
| "py_iter (JDict d) = Inr (map (\<lambda>kv. JStr (fst kv)) d)"
| "py_iter v = Inl TypeError"

text \<open>\<^verbatim>\<open>len(v)\<close>.\<close>

fun py_len :: "json \<Rightarrow> py_error + nat" where
  "py_len (JList xs) = Inr (length xs)"
| "py_len (JStr s) = Inr (length s)"
| "py_len (JDict d) = Inr (length d)"
| "py_len v = Inl TypeError"

text \<open>Truth value of a payload value, as \<^verbatim>\<open>v or {}\<close> tests it.\<close>

fun truthy :: "json \<Rightarrow> bool" where
  "truthy JNull = False"
| "truthy (JBool b) = b"
| "truthy (JInt i) = (i \<noteq> 0)"
| "truthy (JFloat r) = (r \<noteq> 0)"
| "truthy (JStr s) = (s \<noteq> [])"
| "truthy (JList xs) = (xs \<noteq> [])"
| "truthy (JDict d) = (d \<noteq> [])"

text \<open>\<^verbatim>\<open>k in v\<close> for a string \<open>k\<close>: key of a dict, element of a list, substring of a string.\<close>

fun is_prefix :: "string \<Rightarrow> string \<Rightarrow> bool" where
  "is_prefix [] ys = True"
| "is_prefix (x # xs) [] = False"
| "is_prefix (x # xs) (y # ys) = (x = y \<and> is_prefix xs ys)"

fun is_substring :: "string \<Rightarrow> string \<Rightarrow> bool" where
  "is_substring xs [] = (xs = [])"
| "is_substring xs (y # ys) = (is_prefix xs (y # ys) \<or> is_substring xs ys)"

fun py_contains :: "string \<Rightarrow> json \<Rightarrow> py_error + bool" where
  "py_contains k (JDict d) = Inr (dict_has d k)"
| "py_contains k (JList xs) = Inr (JStr k \<in> set xs)"
| "py_contains k (JStr s) = Inr (is_substring k s)"
| "py_contains k v = Inl TypeError"

text \<open>\<^verbatim>\<open>v[k]\<close> for a string \<open>k\<close>: a dict raises KeyError on a missing key; a list or a string
  takes integer indices only; the other values are not subscriptable.\<close>

fun py_index :: "json \<Rightarrow> string \<Rightarrow> py_error + json" where
  "py_index (JDict d) k = (case map_of d k of Some v \<Rightarrow> Inr v | None \<Rightarrow> Inl KeyError)"
| "py_index v k = Inl TypeError"

section \<open>What the two files import\<close>

text \<open>The names of the constants that \<^verbatim>\<open>const.py\<close> exports to the two files.\<close>

datatype api_key =
    API_AQ_ACTIVE | API_AQ_PM_1 | API_AQ_PM_2P5 | API_AQ_PM_10 | API_AQ_CO2 | API_AQ_TVOC
  | API_AQ_HUMIDITY | API_AQ_TEMP | API_AQ_TEMP_CELSIUS | API_AQ_PRESSURE | API_AQ_PRESENT
  | API_AQ_VENT_ACTIVE | API_AQ_QUALITY | API_AQ_SCORE | API_AQ_SENSOR_FW | API_AUTO_MODE
  | API_CONFIG | API_DEVICE_ID | API_DOUBLE_SET_POINT | API_DUAL_SP_CONF | API_ERRORS
  | API_IS_CONNECTED | API_META | API_MODE | API_MODE_AVAIL | API_NAME | API_SIMULATOR_MODE
  | API_SYSTEM_NUMBER | API_WARNINGS | API_WS_CONNECTED | API_ZONE_NUMBER

datatype azd_key =
    AZD_AQ_ACTIVE | AZD_AQ_QUALITY | AZD_AQ_SCORE | AZD_AQ_PM_1 | AZD_AQ_PM_2P5 | AZD_AQ_PM_10
  | AZD_AQ_CO2 | AZD_AQ_TVOC | AZD_AQ_HUMIDITY | AZD_AQ_TEMP | AZD_AQ_PRESSURE | AZD_AQ_PRESENT
  | AZD_AQ_VENT_ACTIVE | AZD_AVAILABLE | AZD_DOUBLE_SET_POINT | AZD_DUAL_SP_CONF | AZD_ERRORS
  | AZD_FIRMWARE | AZD_ID | AZD_INSTALLATION | AZD_IS_CONNECTED | AZD_MODE | AZD_MODE_AUTO
  | AZD_MODES | AZD_NAME | AZD_PROBLEMS | AZD_SIMULATOR_MODE | AZD_SYSTEM | AZD_WARNINGS
  | AZD_WEBSERVER | AZD_WS_CONNECTED | AZD_ZONE

text \<open>
  Modelled from the spec: \<^verbatim>\<open>common.py\<close> (the field parsers and the \<^verbatim>\<open>OperationMode\<close>
  enumeration) and \<^verbatim>\<open>const.py\<close> (the key strings and the quality-level table) are not among
  the sources, so they are parameters of every definition below.
  \<^item> The four parsers take any raw value and return the parsed value or \<^verbatim>\<open>None\<close>; they
    never raise (spec 4.1).
  \<^item> \<open>OperationMode\<close> is the call \<^verbatim>\<open>OperationMode(v)\<close> on a raw value: the member, or
    \<open>None\<close> for the ValueError of an unrecognised value (spec 3). The members are the
    type \<open>'m\<close>.
  \<^item> \<open>api\<close> and \<open>azd\<close> give the string of each key constant.
  \<^item> \<open>API_AQ_QUALITY_LEVELS\<close> is the level table, in the order of its \<^verbatim>\<open>items()\<close>.
  \<^item> \<open>py_str\<close> is Python's builtin \<^verbatim>\<open>str\<close> on a payload value (it never raises).
\<close>

record 'm env =
  parse_bool :: "json \<Rightarrow> bool option"
  parse_int :: "json \<Rightarrow> int option"
  parse_float :: "json \<Rightarrow> real option"
  parse_str :: "json \<Rightarrow> string option"
  OperationMode :: "json \<Rightarrow> 'm option"
  api :: "api_key \<Rightarrow> string"
  azd :: "azd_key \<Rightarrow> string"
  API_AQ_QUALITY_LEVELS :: "(json \<times> string) list"
  py_str :: "json \<Rightarrow> string"

text \<open>
  Modelled from the spec: \<^verbatim>\<open>entity.py\<close> is not among the sources. The update envelope
  carries one raw mapping, read with \<^verbatim>\<open>get_data()\<close> (spec 4.2).
\<close>

datatype EntityUpdate = EntityUpdate (get_data: "(string \<times> json) list")

section \<open>The objects\<close>

text \<open>
  The attributes \<^verbatim>\<open>Device.__init__\<close> creates, each with the type of the values the code
  stores in it: \<open>aq_score\<close> receives the result of \<^verbatim>\<open>parse_str\<close>, \<open>errors\<close> and \<open>warnings\<close>
  receive raw items. \<open>air_quality\<close> is a reference to another object, read through a heap.
  The attribute \<^verbatim>\<open>id\<close> is \<open>id'\<close> here.
\<close>

type_synonym ref = nat

record 'm Device =
  air_quality :: "ref option"
  auto_mode :: "'m option"
  aq_active :: "bool option"
  aq_pm_1 :: "int option"
  aq_pm_2p5 :: "int option"
  aq_pm_10 :: "int option"
  aq_co2 :: "int option"
  aq_tvoc :: "int option"
  aq_humidity :: "int option"
  aq_temp :: "real option"
  aq_present :: "bool option"
  aq_quality :: "string option"
  aq_score :: "string option"
  double_set_point :: "bool option"
  dual_sp_conf :: "bool option"
  errors :: "json list"
  id' :: string
  installation_id :: string
  mode :: "'m option"
  modes :: "'m list"
  name :: string
  simulator_mode :: "bool option"
  warnings :: "json list"
  webserver_id :: string
  ws_connected :: bool
  is_connected :: bool

text \<open>
  \<^verbatim>\<open>class AirQuality(Device)\<close> adds its own attributes. \<open>aq_pressure\<close> holds the raw
  payload value (\<open>JNull\<close> for \<^verbatim>\<open>None\<close>); \<open>systems\<close> and \<open>zones\<close> map ids to references.
\<close>

record 'm AirQuality = "'m Device" +
  aq_sensor_fw :: "string option"
  systems :: "string \<rightharpoonup> ref"
  zones :: "string \<rightharpoonup> ref"
  aq_vent_active :: "bool option"
  aq_pressure :: json
  system_number :: int
  zone_number :: int

type_synonym 'm heap = "ref \<Rightarrow> 'm AirQuality"


section \<open>Device\<close>

subsection \<open>update_data\<close>

text \<open>
  \<^verbatim>\<open>Device.update_data\<close> (device.py, lines 377 to 469) is a sequence of blocks, one per
  attribute, each reading \<^verbatim>\<open>data = update.get_data()\<close>. Each block is one definition
  below, in the order of the source; \<open>Device_update_data\<close> runs them in that order.
\<close>

definition upd_is_connected ::
  "'m env \<Rightarrow> (string \<times> json) list \<Rightarrow> ('m, 'z) Device_scheme \<Rightarrow> ('m, 'z) Device_scheme res" where
  "upd_is_connected c data self =
     (case parse_bool c (dict_get data (api c API_IS_CONNECTED)) of
        Some v \<Rightarrow> Ok (self\<lparr>is_connected := v\<rparr>)
      | None \<Rightarrow> Ok self)"

definition upd_ws_connected ::
  "'m env \<Rightarrow> (string \<times> json) list \<Rightarrow> ('m, 'z) Device_scheme \<Rightarrow> ('m, 'z) Device_scheme res" where
  "upd_ws_connected c data self =
     (case parse_bool c (dict_get data (api c API_WS_CONNECTED)) of
        Some v \<Rightarrow> Ok (self\<lparr>ws_connected := v\<rparr>)
      | None \<Rightarrow> Ok self)"

definition upd_aq_active ::
  "'m env \<Rightarrow> (string \<times> json) list \<Rightarrow> ('m, 'z) Device_scheme \<Rightarrow> ('m, 'z) Device_scheme res" where
  "upd_aq_active c data self =
     (case parse_bool c (dict_get data (api c API_AQ_ACTIVE)) of
        Some v \<Rightarrow> Ok (self\<lparr>aq_active := Some v\<rparr>)
      | None \<Rightarrow> Ok self)"

definition upd_aq_pm_1 ::
  "'m env \<Rightarrow> (string \<times> json) list \<Rightarrow> ('m, 'z) Device_scheme \<Rightarrow> ('m, 'z) Device_scheme res" where
  "upd_aq_pm_1 c data self =
     (case parse_int c (dict_get data (api c API_AQ_PM_1)) of
        Some v \<Rightarrow> Ok (self\<lparr>aq_pm_1 := Some v\<rparr>)
      | None \<Rightarrow> Ok self)"

definition upd_aq_pm_2p5 ::
  "'m env \<Rightarrow> (string \<times> json) list \<Rightarrow> ('m, 'z) Device_scheme \<Rightarrow> ('m, 'z) Device_scheme res" where
  "upd_aq_pm_2p5 c data self =
     (case parse_int c (dict_get data (api c API_AQ_PM_2P5)) of
        Some v \<Rightarrow> Ok (self\<lparr>aq_pm_2p5 := Some v\<rparr>)
      | None \<Rightarrow> Ok self)"

definition upd_aq_pm_10 ::
  "'m env \<Rightarrow> (string \<times> json) list \<Rightarrow> ('m, 'z) Device_scheme \<Rightarrow> ('m, 'z) Device_scheme res" where
  "upd_aq_pm_10 c data self =
     (case parse_int c (dict_get data (api c API_AQ_PM_10)) of
        Some v \<Rightarrow> Ok (self\<lparr>aq_pm_10 := Some v\<rparr>)
      | None \<Rightarrow> Ok self)"

definition upd_aq_co2 ::
  "'m env \<Rightarrow> (string \<times> json) list \<Rightarrow> ('m, 'z) Device_scheme \<Rightarrow> ('m, 'z) Device_scheme res" where
  "upd_aq_co2 c data self =
     (case parse_int c (dict_get data (api c API_AQ_CO2)) of
        Some v \<Rightarrow> Ok (self\<lparr>aq_co2 := Some v\<rparr>)
      | None \<Rightarrow> Ok self)"

definition upd_aq_tvoc ::
  "'m env \<Rightarrow> (string \<times> json) list \<Rightarrow> ('m, 'z) Device_scheme \<Rightarrow> ('m, 'z) Device_scheme res" where
  "upd_aq_tvoc c data self =
     (case parse_int c (dict_get data (api c API_AQ_TVOC)) of
        Some v \<Rightarrow> Ok (self\<lparr>aq_tvoc := Some v\<rparr>)
      | None \<Rightarrow> Ok self)"

definition upd_aq_humidity ::
  "'m env \<Rightarrow> (string \<times> json) list \<Rightarrow> ('m, 'z) Device_scheme \<Rightarrow> ('m, 'z) Device_scheme res" where
  "upd_aq_humidity c data self =
     (case parse_int c (dict_get data (api c API_AQ_HUMIDITY)) of
        Some v \<Rightarrow> Ok (self\<lparr>aq_humidity := Some v\<rparr>)
      | None \<Rightarrow> Ok self)"

text \<open>
  The temperature block (lines 416 to 419): the value under the temperature key, when it
  is not \<^verbatim>\<open>None\<close>, is asked for its Celsius entry with \<^verbatim>\<open>.get\<close>, and the result of
  \<^verbatim>\<open>parse_float\<close> is assigned with no test.
\<close>

definition upd_aq_temp ::
  "'m env \<Rightarrow> (string \<times> json) list \<Rightarrow> ('m, 'z) Device_scheme \<Rightarrow> ('m, 'z) Device_scheme res" where
  "upd_aq_temp c data self =
     (let aq_temp_raw = dict_get data (api c API_AQ_TEMP) in
      if aq_temp_raw \<noteq> JNull then
        (case py_get aq_temp_raw (api c API_AQ_TEMP_CELSIUS) of
           Inl e \<Rightarrow> Raise e self
         | Inr celsius \<Rightarrow> Ok (self\<lparr>aq_temp := parse_float c celsius\<rparr>))
      else Ok self)"

definition upd_aq_present ::
  "'m env \<Rightarrow> (string \<times> json) list \<Rightarrow> ('m, 'z) Device_scheme \<Rightarrow> ('m, 'z) Device_scheme res" where
  "upd_aq_present c data self =
     (case parse_bool c (dict_get data (api c API_AQ_PRESENT)) of
        Some v \<Rightarrow> Ok (self\<lparr>aq_present := Some v\<rparr>)
      | None \<Rightarrow> Ok self)"

definition upd_aq_quality ::
  "'m env \<Rightarrow> (string \<times> json) list \<Rightarrow> ('m, 'z) Device_scheme \<Rightarrow> ('m, 'z) Device_scheme res" where
  "upd_aq_quality c data self =
     (case parse_str c (dict_get data (api c API_AQ_QUALITY)) of
        Some v \<Rightarrow> Ok (self\<lparr>aq_quality := Some v\<rparr>)
      | None \<Rightarrow> Ok self)"

definition upd_aq_score ::
  "'m env \<Rightarrow> (string \<times> json) list \<Rightarrow> ('m, 'z) Device_scheme \<Rightarrow> ('m, 'z) Device_scheme res" where
  "upd_aq_score c data self =
     (case parse_str c (dict_get data (api c API_AQ_SCORE)) of
        Some v \<Rightarrow> Ok (self\<lparr>aq_score := Some v\<rparr>)
      | None \<Rightarrow> Ok self)"

text \<open>Lines 433 to 435: \<^verbatim>\<open>OperationMode(auto_mode)\<close> raises ValueError on a value that is
  not a member.\<close>

definition upd_auto_mode ::
  "'m env \<Rightarrow> (string \<times> json) list \<Rightarrow> ('m, 'z) Device_scheme \<Rightarrow> ('m, 'z) Device_scheme res" where
  "upd_auto_mode c data self =
     (let auto_mode_raw = dict_get data (api c API_AUTO_MODE) in
      if auto_mode_raw \<noteq> JNull then
        (case OperationMode c auto_mode_raw of
           None \<Rightarrow> Raise ValueError self
         | Some m \<Rightarrow> Ok (self\<lparr>auto_mode := Some m\<rparr>))
      else Ok self)"

definition upd_double_set_point ::
  "'m env \<Rightarrow> (string \<times> json) list \<Rightarrow> ('m, 'z) Device_scheme \<Rightarrow> ('m, 'z) Device_scheme res" where
  "upd_double_set_point c data self =
     (case parse_bool c (dict_get data (api c API_DOUBLE_SET_POINT)) of
        Some v \<Rightarrow> Ok (self\<lparr>double_set_point := Some v\<rparr>)
      | None \<Rightarrow> Ok self)"

definition upd_dual_sp_conf ::
  "'m env \<Rightarrow> (string \<times> json) list \<Rightarrow> ('m, 'z) Device_scheme \<Rightarrow> ('m, 'z) Device_scheme res" where
  "upd_dual_sp_conf c data self =
     (case parse_bool c (dict_get data (api c API_DUAL_SP_CONF)) of
        Some v \<Rightarrow> Ok (self\<lparr>dual_sp_conf := Some v\<rparr>)
      | None \<Rightarrow> Ok self)"

text \<open>
  Lines 445 to 449 and 465 to 469: the attribute is first set to the empty list, then the
  items of the raw value are appended one by one. A value that cannot be iterated raises
  after the attribute has been emptied.
\<close>

definition append_items :: "json list \<Rightarrow> json list \<Rightarrow> json list" where
  "append_items acc items = foldl (\<lambda>acc item. acc @ [item]) acc items"

definition upd_errors ::
  "'m env \<Rightarrow> (string \<times> json) list \<Rightarrow> ('m, 'z) Device_scheme \<Rightarrow> ('m, 'z) Device_scheme res" where
  "upd_errors c data self =
     (let errors_raw = dict_get data (api c API_ERRORS) in
      if errors_raw \<noteq> JNull then
        (case py_iter errors_raw of
           Inl e \<Rightarrow> Raise e (self\<lparr>errors := []\<rparr>)
         | Inr items \<Rightarrow> Ok (self\<lparr>errors := append_items [] items\<rparr>))
      else Ok self)"

text \<open>Lines 451 to 453: the current mode is written with no membership test.\<close>

definition upd_mode ::
  "'m env \<Rightarrow> (string \<times> json) list \<Rightarrow> ('m, 'z) Device_scheme \<Rightarrow> ('m, 'z) Device_scheme res" where
  "upd_mode c data self =
     (let mode_raw = dict_get data (api c API_MODE) in
      if mode_raw \<noteq> JNull then
        (case OperationMode c mode_raw of
           None \<Rightarrow> Raise ValueError self
         | Some m \<Rightarrow> Ok (self\<lparr>mode := Some m\<rparr>))
      else Ok self)"

text \<open>
  Lines 454 to 459: the list of available modes is built in a local variable and assigned
  after the loop, and only when the raw value is not \<^verbatim>\<open>None\<close> and has a positive length.
  \<open>modes_loop\<close> is the loop; \<open>None\<close> is the ValueError of \<^verbatim>\<open>OperationMode(mode)\<close>.
\<close>

fun modes_loop :: "'m env \<Rightarrow> json list \<Rightarrow> 'm list \<Rightarrow> 'm list option" where
  "modes_loop c [] acc = Some acc"
| "modes_loop c (x # xs) acc =
     (case OperationMode c x of None \<Rightarrow> None | Some m \<Rightarrow> modes_loop c xs (acc @ [m]))"

definition upd_modes ::
  "'m env \<Rightarrow> (string \<times> json) list \<Rightarrow> ('m, 'z) Device_scheme \<Rightarrow> ('m, 'z) Device_scheme res" where
  "upd_modes c data self =
     (let mode_avail = dict_get data (api c API_MODE_AVAIL) in
      if mode_avail \<noteq> JNull then
        (case py_len mode_avail of
           Inl e \<Rightarrow> Raise e self
         | Inr n \<Rightarrow>
             if n > 0 then
               (case py_iter mode_avail of
                  Inl e \<Rightarrow> Raise e self
                | Inr items \<Rightarrow>
                    (case modes_loop c items [] of
                       None \<Rightarrow> Raise ValueError self
                     | Some ms \<Rightarrow> Ok (self\<lparr>modes := ms\<rparr>)))
             else Ok self)
      else Ok self)"

definition upd_simulator_mode ::
  "'m env \<Rightarrow> (string \<times> json) list \<Rightarrow> ('m, 'z) Device_scheme \<Rightarrow> ('m, 'z) Device_scheme res" where
  "upd_simulator_mode c data self =
     (case parse_bool c (dict_get data (api c API_SIMULATOR_MODE)) of
        Some v \<Rightarrow> Ok (self\<lparr>simulator_mode := Some v\<rparr>)
      | None \<Rightarrow> Ok self)"

definition upd_warnings ::
  "'m env \<Rightarrow> (string \<times> json) list \<Rightarrow> ('m, 'z) Device_scheme \<Rightarrow> ('m, 'z) Device_scheme res" where
  "upd_warnings c data self =
     (let warnings_raw = dict_get data (api c API_WARNINGS) in
      if warnings_raw \<noteq> JNull then
        (case py_iter warnings_raw of
           Inl e \<Rightarrow> Raise e (self\<lparr>warnings := []\<rparr>)
         | Inr items \<Rightarrow> Ok (self\<lparr>warnings := append_items [] items\<rparr>))
      else Ok self)"

definition Device_update_data ::
  "'m env \<Rightarrow> ('m, 'z) Device_scheme \<Rightarrow> EntityUpdate \<Rightarrow> ('m, 'z) Device_scheme res" where
  "Device_update_data c self update =
     (let data = get_data update in
      run_steps
        [upd_is_connected c data, upd_ws_connected c data, upd_aq_active c data,
         upd_aq_pm_1 c data, upd_aq_pm_2p5 c data, upd_aq_pm_10 c data, upd_aq_co2 c data,
         upd_aq_tvoc c data, upd_aq_humidity c data, upd_aq_temp c data,
         upd_aq_present c data, upd_aq_quality c data, upd_aq_score c data,
         upd_auto_mode c data, upd_double_set_point c data, upd_dual_sp_conf c data,
         upd_errors c data, upd_mode c data, upd_modes c data, upd_simulator_mode c data,
         upd_warnings c data]
        self)"

section \<open>AirQuality\<close>

subsection \<open>update_data\<close>

text \<open>
  \<^verbatim>\<open>AirQuality.update_data\<close> (air_quality.py, lines 252 to 309) first calls
  \<^verbatim>\<open>super().update_data(update)\<close> and then runs its own blocks. The blocks for the
  particle, gas, humidity, temperature, presence, quality and score attributes repeat
  those of \<^verbatim>\<open>Device.update_data\<close> word for word, so the same definitions stand for them.
\<close>

definition upd_aq_vent_active ::
  "'m env \<Rightarrow> (string \<times> json) list \<Rightarrow> ('m, 'z) AirQuality_scheme \<Rightarrow> ('m, 'z) AirQuality_scheme res" where
  "upd_aq_vent_active c data self =
     (case parse_bool c (dict_get data (api c API_AQ_VENT_ACTIVE)) of
        Some v \<Rightarrow> Ok (self\<lparr>aq_vent_active := Some v\<rparr>)
      | None \<Rightarrow> Ok self)"

text \<open>Lines 291 to 293: the raw pressure value is stored as it is, with no parser.\<close>

definition upd_aq_pressure ::
  "'m env \<Rightarrow> (string \<times> json) list \<Rightarrow> ('m, 'z) AirQuality_scheme \<Rightarrow> ('m, 'z) AirQuality_scheme res" where
  "upd_aq_pressure c data self =
     (let aq_pressure_raw = dict_get data (api c API_AQ_PRESSURE) in
      if aq_pressure_raw \<noteq> JNull then Ok (self\<lparr>aq_pressure := aq_pressure_raw\<rparr>)
      else Ok self)"

definition upd_aq_sensor_fw ::
  "'m env \<Rightarrow> (string \<times> json) list \<Rightarrow> ('m, 'z) AirQuality_scheme \<Rightarrow> ('m, 'z) AirQuality_scheme res" where
  "upd_aq_sensor_fw c data self =
     (case parse_str c (dict_get data (api c API_AQ_SENSOR_FW)) of
        Some v \<Rightarrow> Ok (self\<lparr>aq_sensor_fw := Some v\<rparr>)
      | None \<Rightarrow> Ok self)"

definition AirQuality_update_data ::
  "'m env \<Rightarrow> ('m, 'z) AirQuality_scheme \<Rightarrow> EntityUpdate \<Rightarrow> ('m, 'z) AirQuality_scheme res" where
  "AirQuality_update_data c self update =
     run_steps
       [\<lambda>self. Device_update_data c self update,
        \<lambda>self. let data = get_data update in
          run_steps
            [upd_aq_vent_active c data, upd_aq_pm_1 c data, upd_aq_pm_2p5 c data,
             upd_aq_pm_10 c data, upd_aq_co2 c data, upd_aq_tvoc c data,
             upd_aq_humidity c data, upd_aq_temp c data, upd_aq_pressure c data,
             upd_aq_present c data, upd_aq_quality c data, upd_aq_score c data,
             upd_aq_sensor_fw c data]
            self]
       self"


section \<open>Reading a Device\<close>

text \<open>
  The getters contain no assignment, so each is a function from the state to the value
  returned: the state after the call is the state before it. \<^verbatim>\<open>self.air_quality\<close> is a
  reference; the heap \<open>h\<close> gives the AirQuality object it points to.
  \<^verbatim>\<open>AirQuality\<close> overrides the getters for quality, score, the particle and gas readings,
  temperature, humidity and presence with bodies identical to those of \<^verbatim>\<open>Device\<close>
  (air_quality.py, lines 159 to 223), so one definition stands for both.
\<close>

definition get_aq_active :: "'m heap \<Rightarrow> ('m, 'z) Device_scheme \<Rightarrow> bool option" where
  "get_aq_active h self =
     (case air_quality self of Some r \<Rightarrow> aq_active (h r) | None \<Rightarrow> aq_active self)"

definition get_aq_quality :: "'m heap \<Rightarrow> ('m, 'z) Device_scheme \<Rightarrow> string option" where
  "get_aq_quality h self =
     (case air_quality self of Some r \<Rightarrow> aq_quality (h r) | None \<Rightarrow> aq_quality self)"

definition get_aq_score :: "'m heap \<Rightarrow> ('m, 'z) Device_scheme \<Rightarrow> string option" where
  "get_aq_score h self =
     (case air_quality self of Some r \<Rightarrow> aq_score (h r) | None \<Rightarrow> aq_score self)"

definition get_aq_pm_1 :: "'m heap \<Rightarrow> ('m, 'z) Device_scheme \<Rightarrow> int option" where
  "get_aq_pm_1 h self =
     (case air_quality self of Some r \<Rightarrow> aq_pm_1 (h r) | None \<Rightarrow> aq_pm_1 self)"

definition get_aq_pm_2p5 :: "'m heap \<Rightarrow> ('m, 'z) Device_scheme \<Rightarrow> int option" where
  "get_aq_pm_2p5 h self =
     (case air_quality self of Some r \<Rightarrow> aq_pm_2p5 (h r) | None \<Rightarrow> aq_pm_2p5 self)"

definition get_aq_pm_10 :: "'m heap \<Rightarrow> ('m, 'z) Device_scheme \<Rightarrow> int option" where
  "get_aq_pm_10 h self =
     (case air_quality self of Some r \<Rightarrow> aq_pm_10 (h r) | None \<Rightarrow> aq_pm_10 self)"

definition get_aq_co2 :: "'m heap \<Rightarrow> ('m, 'z) Device_scheme \<Rightarrow> int option" where
  "get_aq_co2 h self =
     (case air_quality self of Some r \<Rightarrow> aq_co2 (h r) | None \<Rightarrow> aq_co2 self)"

definition get_aq_tvoc :: "'m heap \<Rightarrow> ('m, 'z) Device_scheme \<Rightarrow> int option" where
  "get_aq_tvoc h self =
     (case air_quality self of Some r \<Rightarrow> aq_tvoc (h r) | None \<Rightarrow> aq_tvoc self)"

definition get_aq_temp :: "'m heap \<Rightarrow> ('m, 'z) Device_scheme \<Rightarrow> real option" where
  "get_aq_temp h self =
     (case air_quality self of Some r \<Rightarrow> aq_temp (h r) | None \<Rightarrow> aq_temp self)"

definition get_aq_humidity :: "'m heap \<Rightarrow> ('m, 'z) Device_scheme \<Rightarrow> int option" where
  "get_aq_humidity h self =
     (case air_quality self of Some r \<Rightarrow> aq_humidity (h r) | None \<Rightarrow> aq_humidity self)"

definition get_aq_present :: "'m heap \<Rightarrow> ('m, 'z) Device_scheme \<Rightarrow> bool option" where
  "get_aq_present h self =
     (case air_quality self of Some r \<Rightarrow> aq_present (h r) | None \<Rightarrow> aq_present self)"

text \<open>
  \<^verbatim>\<open>get_aq_status\<close> (device.py, lines 230 to 237) begins by calling itself on the same
  object. The interpreter bounds the depth of the call stack (\<^verbatim>\<open>sys.getrecursionlimit()\<close>,
  1000 by default): \<open>frames\<close> is the number of frames still available when the call is
  made. A call made with no frame available raises RecursionError at the call; otherwise
  the call takes one frame and its body runs, the inner call having one frame less. The
  name \<^verbatim>\<open>API_AQ_STATUS\<close> read after the inner call is neither imported nor defined in
  device.py: reaching it raises NameError. \<open>Inl e\<close> is the exception \<open>e\<close> reaching the
  caller, \<open>Inr v\<close> the value returned.
\<close>

fun get_aq_status :: "nat \<Rightarrow> ('m, 'z) Device_scheme \<Rightarrow> py_error + int option" where
  "get_aq_status 0 self = Inl RecursionError"
| "get_aq_status (Suc frames) self =
     (case get_aq_status frames self of
        Inl e \<Rightarrow> Inl e
      | Inr aq_status \<Rightarrow>
          (if aq_status \<noteq> None then Inl NameError else Inr None))"

definition get_available :: "('m, 'z) Device_scheme \<Rightarrow> bool" where
  "get_available self = (is_connected self \<and> ws_connected self)"

definition get_double_set_point :: "('m, 'z) Device_scheme \<Rightarrow> bool" where
  "get_double_set_point self =
     (case double_set_point self of Some v \<Rightarrow> v | None \<Rightarrow> False)"

definition get_dual_sp_conf :: "('m, 'z) Device_scheme \<Rightarrow> bool option" where
  "get_dual_sp_conf self = dual_sp_conf self"

definition get_errors :: "('m, 'z) Device_scheme \<Rightarrow> json list" where
  "get_errors self = errors self"

definition get_id :: "('m, 'z) Device_scheme \<Rightarrow> string" where
  "get_id self = id' self"

definition get_installation :: "('m, 'z) Device_scheme \<Rightarrow> string" where
  "get_installation self = installation_id self"

definition get_is_connected :: "('m, 'z) Device_scheme \<Rightarrow> bool" where
  "get_is_connected self = is_connected self"

definition get_mode :: "('m, 'z) Device_scheme \<Rightarrow> 'm option" where
  "get_mode self = mode self"

definition get_mode_auto :: "('m, 'z) Device_scheme \<Rightarrow> 'm option" where
  "get_mode_auto self = auto_mode self"

definition get_modes :: "('m, 'z) Device_scheme \<Rightarrow> 'm list option" where
  "get_modes self = (if length (modes self) > 0 then Some (modes self) else None)"

definition get_name :: "('m, 'z) Device_scheme \<Rightarrow> string" where
  "get_name self = name self"

text \<open>\<^verbatim>\<open>bool(xs)\<close> of a list is whether it is nonempty.\<close>

definition get_problems :: "('m, 'z) Device_scheme \<Rightarrow> bool" where
  "get_problems self = (errors self \<noteq> [] \<or> warnings self \<noteq> [])"

definition get_simulator_mode :: "('m, 'z) Device_scheme \<Rightarrow> bool option" where
  "get_simulator_mode self = simulator_mode self"

definition get_warnings :: "('m, 'z) Device_scheme \<Rightarrow> json list" where
  "get_warnings self = warnings self"

definition get_webserver :: "('m, 'z) Device_scheme \<Rightarrow> string" where
  "get_webserver self = webserver_id self"

definition get_ws_connected :: "('m, 'z) Device_scheme \<Rightarrow> bool" where
  "get_ws_connected self = ws_connected self"

subsection \<open>The setters\<close>

definition set_air_quality :: "('m, 'z) Device_scheme \<Rightarrow> ref \<Rightarrow> ('m, 'z) Device_scheme" where
  "set_air_quality self r = self\<lparr>air_quality := Some r\<rparr>"

text \<open>
  \<^verbatim>\<open>set_mode\<close> takes \<^verbatim>\<open>int | OperationMode\<close> and starts with \<^verbatim>\<open>OperationMode(mode)\<close>. Called
  on a member, a Python enumeration returns that member; called on a raw value it looks
  the value up. The else branch only logs; the log is not part of the state.
\<close>

datatype 'm mode_arg = RawMode json | EnumMode 'm

fun OperationMode_call :: "'m env \<Rightarrow> 'm mode_arg \<Rightarrow> 'm option" where
  "OperationMode_call c (EnumMode m) = Some m"
| "OperationMode_call c (RawMode v) = OperationMode c v"

definition set_mode ::
  "'m env \<Rightarrow> ('m, 'z) Device_scheme \<Rightarrow> 'm mode_arg \<Rightarrow> ('m, 'z) Device_scheme res" where
  "set_mode c self mode_in =
     (case OperationMode_call c mode_in of
        None \<Rightarrow> Raise ValueError self
      | Some m \<Rightarrow> if m \<in> set (modes self) then Ok (self\<lparr>mode := Some m\<rparr>) else Ok self)"

section \<open>Reading an AirQuality\<close>

definition get_aq_vent_active :: "'m heap \<Rightarrow> ('m, 'z) AirQuality_scheme \<Rightarrow> bool option" where
  "get_aq_vent_active h self =
     (case air_quality self of Some r \<Rightarrow> aq_vent_active (h r) | None \<Rightarrow> aq_vent_active self)"

definition get_aq_pressure :: "'m heap \<Rightarrow> ('m, 'z) AirQuality_scheme \<Rightarrow> json" where
  "get_aq_pressure h self =
     (case air_quality self of Some r \<Rightarrow> aq_pressure (h r) | None \<Rightarrow> aq_pressure self)"

definition get_aq_sensor_fw :: "('m, 'z) AirQuality_scheme \<Rightarrow> string option" where
  "get_aq_sensor_fw self = aq_sensor_fw self"

definition get_system_num :: "('m, 'z) AirQuality_scheme \<Rightarrow> int" where
  "get_system_num self = system_number self"

definition get_zone_num :: "('m, 'z) AirQuality_scheme \<Rightarrow> int" where
  "get_zone_num self = zone_number self"

section \<open>data()\<close>

text \<open>
  The output mapping is \<^verbatim>\<open>dict[str, Any]\<close>: a map from key strings to the values the code
  puts in it.
\<close>

datatype 'm pyval =
    PBool bool
  | PInt int
  | PFloat real
  | PStr string
  | PMode 'm
  | PModes "'m list"
  | PItems "json list"
  | PRaw json

type_synonym 'm out = "string \<rightharpoonup> 'm pyval"

text \<open>\<^verbatim>\<open>if x is not None: data[k] = x\<close>.\<close>

definition put_some :: "string \<Rightarrow> ('a \<Rightarrow> 'm pyval) \<Rightarrow> 'a option \<Rightarrow> 'm out \<Rightarrow> 'm out" where
  "put_some k wrap x data = (case x of Some v \<Rightarrow> data(k \<mapsto> wrap v) | None \<Rightarrow> data)"

text \<open>
  Lines 148 to 150 of device.py (and 100 to 102 of air_quality.py): every item of the level
  table is visited, and each item whose key equals the level writes the quality key.
\<close>

definition quality_loop :: "'m env \<Rightarrow> string \<Rightarrow> 'm out \<Rightarrow> 'm out" where
  "quality_loop c aq_quality_v data =
     fold (\<lambda>item data.
             if JStr aq_quality_v = fst item then data(azd c AZD_AQ_QUALITY \<mapsto> PStr (snd item))
             else data)
          (API_AQ_QUALITY_LEVELS c) data"

definition put_quality :: "'m env \<Rightarrow> string option \<Rightarrow> 'm out \<Rightarrow> 'm out" where
  "put_quality c aq_quality_v data =
     (case aq_quality_v of Some q \<Rightarrow> quality_loop c q data | None \<Rightarrow> data)"

definition Device_data :: "'m env \<Rightarrow> 'm heap \<Rightarrow> ('m, 'z) Device_scheme \<Rightarrow> 'm out" where
  "Device_data c h self =
     (let data =
            [azd c AZD_AVAILABLE \<mapsto> PBool (get_available self),
             azd c AZD_DOUBLE_SET_POINT \<mapsto> PBool (get_double_set_point self),
             azd c AZD_ID \<mapsto> PStr (get_id self),
             azd c AZD_INSTALLATION \<mapsto> PStr (get_installation self),
             azd c AZD_IS_CONNECTED \<mapsto> PBool (get_is_connected self),
             azd c AZD_NAME \<mapsto> PStr (get_name self),
             azd c AZD_PROBLEMS \<mapsto> PBool (get_problems self),
             azd c AZD_WEBSERVER \<mapsto> PStr (get_webserver self),
             azd c AZD_WS_CONNECTED \<mapsto> PBool (get_ws_connected self)];
          data = put_some (azd c AZD_AQ_ACTIVE) PBool (get_aq_active h self) data;
          data = put_quality c (get_aq_quality h self) data;
          data = put_some (azd c AZD_AQ_SCORE) PStr (get_aq_score h self) data;
          data = put_some (azd c AZD_AQ_PM_1) PInt (get_aq_pm_1 h self) data;
          data = put_some (azd c AZD_AQ_PM_2P5) PInt (get_aq_pm_2p5 h self) data;
          data = put_some (azd c AZD_AQ_PM_10) PInt (get_aq_pm_10 h self) data;
          data = put_some (azd c AZD_AQ_CO2) PInt (get_aq_co2 h self) data;
          data = put_some (azd c AZD_AQ_TVOC) PInt (get_aq_tvoc h self) data;
          data = put_some (azd c AZD_AQ_HUMIDITY) PInt (get_aq_humidity h self) data;
          data = put_some (azd c AZD_AQ_TEMP) PFloat (get_aq_temp h self) data;
          data = put_some (azd c AZD_AQ_PRESENT) PBool (get_aq_present h self) data;
          data = put_some (azd c AZD_DUAL_SP_CONF) PBool (get_dual_sp_conf self) data;
          data = (if length (get_errors self) > 0
                  then data(azd c AZD_ERRORS \<mapsto> PItems (get_errors self)) else data);
          data = put_some (azd c AZD_MODE) PMode (get_mode self) data;
          data = put_some (azd c AZD_MODE_AUTO) PMode (get_mode_auto self) data;
          data = put_some (azd c AZD_MODES) PModes (get_modes self) data;
          data = put_some (azd c AZD_SIMULATOR_MODE) PBool (get_simulator_mode self) data;
          data = (if length (get_warnings self) > 0
                  then data(azd c AZD_WARNINGS \<mapsto> PItems (get_warnings self)) else data)
      in data)"

definition AirQuality_data :: "'m env \<Rightarrow> 'm heap \<Rightarrow> ('m, 'z) AirQuality_scheme \<Rightarrow> 'm out" where
  "AirQuality_data c h self =
     (let data = Device_data c h self;
          data = put_some (azd c AZD_AQ_VENT_ACTIVE) PBool (get_aq_vent_active h self) data;
          data = put_quality c (get_aq_quality h self) data;
          data = put_some (azd c AZD_AQ_SCORE) PStr (get_aq_score h self) data;
          data = put_some (azd c AZD_AQ_PM_1) PInt (get_aq_pm_1 h self) data;
          data = put_some (azd c AZD_AQ_PM_2P5) PInt (get_aq_pm_2p5 h self) data;
          data = put_some (azd c AZD_AQ_PM_10) PInt (get_aq_pm_10 h self) data;
          data = put_some (azd c AZD_AQ_CO2) PInt (get_aq_co2 h self) data;
          data = put_some (azd c AZD_AQ_TVOC) PInt (get_aq_tvoc h self) data;
          data = put_some (azd c AZD_AQ_HUMIDITY) PInt (get_aq_humidity h self) data;
          data = put_some (azd c AZD_AQ_TEMP) PFloat (get_aq_temp h self) data;
          data = (if get_aq_pressure h self \<noteq> JNull
                  then data(azd c AZD_AQ_PRESSURE \<mapsto> PRaw (get_aq_pressure h self)) else data);
          data = put_some (azd c AZD_AQ_PRESENT) PBool (get_aq_present h self) data;
          data = data(azd c AZD_SYSTEM \<mapsto> PInt (get_system_num self));
          data = data(azd c AZD_ZONE \<mapsto> PInt (get_zone_num self));
          data = put_some (azd c AZD_FIRMWARE) PStr (get_aq_sensor_fw self) data
      in data)"


section \<open>Construction\<close>

subsection \<open>Python's int() and the formatting of an int\<close>

text \<open>
  \<^verbatim>\<open>int(v)\<close> on a payload value. A string is stripped of surrounding white space and read
  as an optionally signed decimal literal, in which single underscores may separate
  digits; anything else in a string raises ValueError. Only ASCII digits and ASCII white
  space are recognised here. \<^verbatim>\<open>None\<close>, lists and dicts raise TypeError; a float is
  truncated towards zero. The interpreter's configurable limit on the number of digits of
  a decimal string is not represented.
\<close>

definition is_digit :: "char \<Rightarrow> bool" where
  "is_digit ch = (48 \<le> (of_char ch :: nat) \<and> (of_char ch :: nat) \<le> 57)"

definition digit_val :: "char \<Rightarrow> nat" where
  "digit_val ch = of_char ch - 48"

definition is_space :: "char \<Rightarrow> bool" where
  "is_space ch = ((of_char ch :: nat) = 32 \<or> (9 \<le> (of_char ch :: nat) \<and> (of_char ch :: nat) \<le> 13))"

definition strip :: "string \<Rightarrow> string" where
  "strip s = rev (dropWhile is_space (rev (dropWhile is_space s)))"

fun parse_digits :: "string \<Rightarrow> nat \<Rightarrow> nat option" where
  "parse_digits [] acc = Some acc"
| "parse_digits [ch] acc = (if is_digit ch then Some (10 * acc + digit_val ch) else None)"
| "parse_digits (ch # d # ds) acc =
     (if is_digit ch then parse_digits (d # ds) (10 * acc + digit_val ch)
      else if ch = CHR ''_'' \<and> is_digit d then parse_digits ds (10 * acc + digit_val d)
      else None)"

definition parse_nat :: "string \<Rightarrow> nat option" where
  "parse_nat s =
     (case s of [] \<Rightarrow> None
      | ch # cs \<Rightarrow> if is_digit ch then parse_digits cs (digit_val ch) else None)"

definition int_of_string :: "string \<Rightarrow> int option" where
  "int_of_string s =
     (case strip s of [] \<Rightarrow> None
      | ch # cs \<Rightarrow>
          if ch = CHR ''-'' then map_option (\<lambda>n. - int n) (parse_nat cs)
          else if ch = CHR ''+'' then map_option int (parse_nat cs)
          else map_option int (parse_nat (ch # cs)))"

fun py_int :: "json \<Rightarrow> py_error + int" where
  "py_int (JInt i) = Inr i"
| "py_int (JBool b) = Inr (if b then 1 else 0)"
| "py_int (JFloat r) = Inr (if r \<ge> 0 then \<lfloor>r\<rfloor> else \<lceil>r\<rceil>)"
| "py_int (JStr s) = (case int_of_string s of Some i \<Rightarrow> Inr i | None \<Rightarrow> Inl ValueError)"
| "py_int v = Inl TypeError"

text \<open>The decimal digits of an int, as an f-string prints them.\<close>

definition digit_char :: "nat \<Rightarrow> char" where
  "digit_char n = ''0123456789'' ! n"

fun str_of_nat :: "nat \<Rightarrow> string" where
  "str_of_nat n =
     (if n < 10 then [digit_char n]
      else str_of_nat (n div 10) @ [digit_char (n mod 10)])"

definition str_of_int :: "int \<Rightarrow> string" where
  "str_of_int i = (if i < 0 then CHR ''-'' # str_of_nat (nat (- i)) else str_of_nat (nat i))"

subsection \<open>Device.__init__ and sub_data\<close>

text \<open>
  \<^verbatim>\<open>Device.__init__\<close> (device.py, lines 78 to 112). \<^verbatim>\<open>device_data[API_DEVICE_ID]\<close> raises
  KeyError when the payload has no device id; an exception leaves no object. The call
  \<^verbatim>\<open>super().__init__()\<close> goes to \<^verbatim>\<open>entity.py\<close>, which is not among the sources and, by the
  spec, holds only the identity.
\<close>

definition Device_init ::
  "'m env \<Rightarrow> string \<Rightarrow> string \<Rightarrow> (string \<times> json) list \<Rightarrow> py_error + 'm Device" where
  "Device_init c inst_id ws_id device_data =
     (case map_of device_data (api c API_DEVICE_ID) of
        None \<Rightarrow> Inl KeyError
      | Some dev_id \<Rightarrow>
          Inr \<lparr>air_quality = None, auto_mode = None, aq_active = None, aq_pm_1 = None,
               aq_pm_2p5 = None, aq_pm_10 = None, aq_co2 = None, aq_tvoc = None,
               aq_humidity = None, aq_temp = None, aq_present = None, aq_quality = None,
               aq_score = None, double_set_point = None, dual_sp_conf = None, errors = [],
               id' = py_str c dev_id, installation_id = inst_id, mode = None, modes = [],
               name = ''Device'', simulator_mode = None, warnings = [],
               webserver_id = ws_id, ws_connected = True,
               is_connected =
                 (case parse_bool c (dict_get device_data (api c API_IS_CONNECTED)) of
                    Some v \<Rightarrow> v | None \<Rightarrow> True)\<rparr>)"

text \<open>
  \<^verbatim>\<open>sub_data\<close> (lines 114 to 126) probes the entry under the meta key, then the entry
  under the config key, and falls back to the payload. \<open>probe\<close> is one of the two
  identical blocks: \<open>Inr (Some v)\<close> is \<^verbatim>\<open>return v\<close>, \<open>Inr None\<close> is falling through, \<open>Inl e\<close> is
  the exception of \<^verbatim>\<open>in\<close> on a value that is no container.
\<close>

definition probe :: "'m env \<Rightarrow> (string \<times> json) list \<Rightarrow> api_key \<Rightarrow> py_error + json option" where
  "probe c device_data k =
     (if dict_has device_data (api c k) then
        (let sub = (let v = dict_get device_data (api c k) in if truthy v then v else JDict [])
         in case py_contains (api c API_SYSTEM_NUMBER) sub of
              Inl e \<Rightarrow> Inl e
            | Inr found \<Rightarrow> if found then Inr (Some sub) else Inr None)
      else Inr None)"

definition sub_data :: "'m env \<Rightarrow> (string \<times> json) list \<Rightarrow> py_error + json" where
  "sub_data c device_data =
     (case probe c device_data API_META of
        Inl e \<Rightarrow> Inl e
      | Inr (Some meta) \<Rightarrow> Inr meta
      | Inr None \<Rightarrow>
          (case probe c device_data API_CONFIG of
             Inl e \<Rightarrow> Inl e
           | Inr (Some config) \<Rightarrow> Inr config
           | Inr None \<Rightarrow> Inr (JDict device_data)))"

subsection \<open>AirQuality.__init__\<close>

text \<open>\<^verbatim>\<open>int(sub_data[k])\<close>: the subscript may raise, then the conversion may.\<close>

definition int_at :: "json \<Rightarrow> string \<Rightarrow> py_error + int" where
  "int_at sub k = (case py_index sub k of Inl e \<Rightarrow> Inl e | Inr v \<Rightarrow> py_int v)"

definition AirQuality_init ::
  "'m env \<Rightarrow> string \<Rightarrow> string \<Rightarrow> (string \<times> json) list \<Rightarrow> py_error + 'm AirQuality" where
  "AirQuality_init c inst_id ws_id device_data =
     (case Device_init c inst_id ws_id device_data of
        Inl e \<Rightarrow> Inl e
      | Inr base \<Rightarrow>
          (let self = Device.extend base
                 (AirQuality.fields None Map.empty Map.empty None JNull 0 0);
               self = self\<lparr>aq_pm_1 := None, aq_pm_2p5 := None, aq_pm_10 := None,
                          aq_co2 := None, aq_tvoc := None, aq_humidity := None,
                          aq_temp := None, aq_present := None, aq_quality := None,
                          aq_score := None\<rparr>
           in case sub_data c device_data of
                Inl e \<Rightarrow> Inl e
              | Inr sub \<Rightarrow>
                  (case int_at sub (api c API_SYSTEM_NUMBER) of
                     Inl e \<Rightarrow> Inl e
                   | Inr sn \<Rightarrow>
                       (case int_at sub (api c API_ZONE_NUMBER) of
                          Inl e \<Rightarrow> Inl e
                        | Inr zn \<Rightarrow>
                            (let self = self\<lparr>system_number := sn, zone_number := zn\<rparr>
                             in case parse_str c (dict_get device_data (api c API_NAME)) of
                                  Some device_name \<Rightarrow> Inr (self\<lparr>name := device_name\<rparr>)
                                | None \<Rightarrow>
                                    Inr (self\<lparr>name := ''Air Quality '' @ str_of_int sn
                                                   @ '':'' @ str_of_int zn\<rparr>))))))"


section \<open>Well-formed envelopes\<close>

text \<open>
  The raw values on which the blocks of \<^verbatim>\<open>update_data\<close> that can raise do not raise:
  a temperature entry that is \<^verbatim>\<open>None\<close> or a dict, a mode that is \<^verbatim>\<open>None\<close> or recognised by
  \<^verbatim>\<open>OperationMode\<close>, error and warning entries that are \<^verbatim>\<open>None\<close> or can be iterated, and
  an entry of available modes that is \<^verbatim>\<open>None\<close> or a collection of recognised modes.
\<close>

fun is_dict :: "json \<Rightarrow> bool" where
  "is_dict (JDict d) = True"
| "is_dict v = False"

fun iterable :: "json \<Rightarrow> bool" where
  "iterable (JList xs) = True"
| "iterable (JStr s) = True"
| "iterable (JDict d) = True"
| "iterable v = False"

definition recognised :: "'m env \<Rightarrow> json \<Rightarrow> bool" where
  "recognised c v = (OperationMode c v \<noteq> None)"

definition temp_value_ok :: "json \<Rightarrow> bool" where
  "temp_value_ok v = (v = JNull \<or> is_dict v)"

definition mode_value_ok :: "'m env \<Rightarrow> json \<Rightarrow> bool" where
  "mode_value_ok c v = (v = JNull \<or> recognised c v)"

definition items_value_ok :: "json \<Rightarrow> bool" where
  "items_value_ok v = (v = JNull \<or> iterable v)"

definition mode_list_ok :: "'m env \<Rightarrow> json \<Rightarrow> bool" where
  "mode_list_ok c v =
     (v = JNull \<or> (case py_iter v of Inr items \<Rightarrow> list_all (recognised c) items | Inl e \<Rightarrow> False))"

definition envelope_ok :: "'m env \<Rightarrow> (string \<times> json) list \<Rightarrow> bool" where
  "envelope_ok c data =
     (temp_value_ok (dict_get data (api c API_AQ_TEMP)) \<and>
      mode_value_ok c (dict_get data (api c API_AUTO_MODE)) \<and>
      items_value_ok (dict_get data (api c API_ERRORS)) \<and>
      mode_value_ok c (dict_get data (api c API_MODE)) \<and>
      mode_list_ok c (dict_get data (api c API_MODE_AVAIL)) \<and>
      items_value_ok (dict_get data (api c API_WARNINGS)))"

text \<open>
  How far a run of \<^verbatim>\<open>update_data\<close> gets. Six blocks can raise, in this order in the
  source: temperature, auto mode, errors, current mode, available modes, warnings.
  \<open>past_temp\<close> holds when the temperature block does not raise, \<open>past_auto_mode\<close> when
  neither it nor the auto-mode block does, and so on; getting past the warnings block is
  \<open>envelope_ok\<close>. \<open>update_error\<close> is the exception of the first block that raises, \<open>None\<close>
  when none does: \<^verbatim>\<open>.get\<close> on a value that is no dict is an AttributeError,
  \<^verbatim>\<open>OperationMode\<close> on an unrecognised value a ValueError, \<^verbatim>\<open>len\<close> or \<^verbatim>\<open>for\<close> on a value
  that is no collection a TypeError.
\<close>

definition past_temp :: "'m env \<Rightarrow> (string \<times> json) list \<Rightarrow> bool" where
  "past_temp c data = temp_value_ok (dict_get data (api c API_AQ_TEMP))"

definition past_auto_mode :: "'m env \<Rightarrow> (string \<times> json) list \<Rightarrow> bool" where
  "past_auto_mode c data =
     (past_temp c data \<and> mode_value_ok c (dict_get data (api c API_AUTO_MODE)))"

definition past_errors :: "'m env \<Rightarrow> (string \<times> json) list \<Rightarrow> bool" where
  "past_errors c data =
     (past_auto_mode c data \<and> items_value_ok (dict_get data (api c API_ERRORS)))"

definition past_mode :: "'m env \<Rightarrow> (string \<times> json) list \<Rightarrow> bool" where
  "past_mode c data =
     (past_errors c data \<and> mode_value_ok c (dict_get data (api c API_MODE)))"

definition past_modes :: "'m env \<Rightarrow> (string \<times> json) list \<Rightarrow> bool" where
  "past_modes c data =
     (past_mode c data \<and> mode_list_ok c (dict_get data (api c API_MODE_AVAIL)))"

definition update_error :: "'m env \<Rightarrow> (string \<times> json) list \<Rightarrow> py_error option" where
  "update_error c data =
     (if \<not> temp_value_ok (dict_get data (api c API_AQ_TEMP)) then Some AttributeError
      else if \<not> mode_value_ok c (dict_get data (api c API_AUTO_MODE)) then Some ValueError
      else if \<not> items_value_ok (dict_get data (api c API_ERRORS)) then Some TypeError
      else if \<not> mode_value_ok c (dict_get data (api c API_MODE)) then Some ValueError
      else if \<not> mode_list_ok c (dict_get data (api c API_MODE_AVAIL))
        then Some (if iterable (dict_get data (api c API_MODE_AVAIL)) then ValueError
                   else TypeError)
      else if \<not> items_value_ok (dict_get data (api c API_WARNINGS)) then Some TypeError
      else None)"

text \<open>The parsers answer \<^verbatim>\<open>None\<close> on \<^verbatim>\<open>None\<close> (spec 4.1: a missing value yields absent).\<close>

definition absent_tolerant :: "'m env \<Rightarrow> bool" where
  "absent_tolerant c =
     (parse_bool c JNull = None \<and> parse_int c JNull = None \<and>
      parse_float c JNull = None \<and> parse_str c JNull = None)"

text \<open>The string of the quality key is the string of no other output key.\<close>

definition quality_key_apart :: "'m env \<Rightarrow> bool" where
  "quality_key_apart c =
     (azd c AZD_AQ_QUALITY \<notin> set (map (azd c)
        [AZD_AQ_ACTIVE, AZD_AQ_SCORE, AZD_AQ_PM_1, AZD_AQ_PM_2P5, AZD_AQ_PM_10,
         AZD_AQ_CO2, AZD_AQ_TVOC, AZD_AQ_HUMIDITY, AZD_AQ_TEMP, AZD_AQ_PRESSURE,
         AZD_AQ_PRESENT, AZD_AQ_VENT_ACTIVE, AZD_AVAILABLE, AZD_DOUBLE_SET_POINT,
         AZD_DUAL_SP_CONF, AZD_ERRORS, AZD_FIRMWARE, AZD_ID, AZD_INSTALLATION,
         AZD_IS_CONNECTED, AZD_MODE, AZD_MODE_AUTO, AZD_MODES, AZD_NAME, AZD_PROBLEMS,
         AZD_SIMULATOR_MODE, AZD_SYSTEM, AZD_WARNINGS, AZD_WEBSERVER, AZD_WS_CONNECTED,
         AZD_ZONE]))"

section \<open>The effect of each block\<close>

text \<open>
  Each block of \<^verbatim>\<open>update_data\<close> writes one attribute: \<open>keep new old\<close> is the value the
  attribute has afterwards, \<open>new\<close> being what the block computed (\<open>None\<close>: nothing to write).
  \<open>mk\<close> turns an optional exception and a state into a result.
\<close>

definition keep :: "'a option \<Rightarrow> 'a \<Rightarrow> 'a" where
  "keep new old = (case new of Some v \<Rightarrow> v | None \<Rightarrow> old)"

fun mk :: "py_error option \<Rightarrow> 's \<Rightarrow> 's res" where
  "mk None s = Ok s"
| "mk (Some e) s = Raise e s"

definition temp_err :: "'m env \<Rightarrow> (string \<times> json) list \<Rightarrow> py_error option" where
  "temp_err c data =
     (let v = dict_get data (api c API_AQ_TEMP) in
      if v \<noteq> JNull then
        (case py_get v (api c API_AQ_TEMP_CELSIUS) of Inl e \<Rightarrow> Some e | Inr w \<Rightarrow> None)
      else None)"

definition temp_new :: "'m env \<Rightarrow> (string \<times> json) list \<Rightarrow> real option option" where
  "temp_new c data =
     (let v = dict_get data (api c API_AQ_TEMP) in
      if v \<noteq> JNull then
        (case py_get v (api c API_AQ_TEMP_CELSIUS) of
           Inl e \<Rightarrow> None | Inr w \<Rightarrow> Some (parse_float c w))
      else None)"

definition mode_err :: "'m env \<Rightarrow> json \<Rightarrow> py_error option" where
  "mode_err c v = (if v \<noteq> JNull \<and> OperationMode c v = None then Some ValueError else None)"

definition mode_new :: "'m env \<Rightarrow> json \<Rightarrow> 'm option option" where
  "mode_new c v = (if v \<noteq> JNull then map_option Some (OperationMode c v) else None)"

definition items_err :: "json \<Rightarrow> py_error option" where
  "items_err v =
     (if v \<noteq> JNull then (case py_iter v of Inl e \<Rightarrow> Some e | Inr xs \<Rightarrow> None) else None)"

definition items_new :: "json \<Rightarrow> json list option" where
  "items_new v =
     (if v \<noteq> JNull
      then (case py_iter v of Inl e \<Rightarrow> Some [] | Inr xs \<Rightarrow> Some (append_items [] xs))
      else None)"

definition modes_err :: "'m env \<Rightarrow> json \<Rightarrow> py_error option" where
  "modes_err c v =
     (if v \<noteq> JNull then
        (case py_len v of
           Inl e \<Rightarrow> Some e
         | Inr n \<Rightarrow>
             if n > 0 then
               (case py_iter v of
                  Inl e \<Rightarrow> Some e
                | Inr items \<Rightarrow>
                    (case modes_loop c items [] of None \<Rightarrow> Some ValueError | Some ms \<Rightarrow> None))
             else None)
      else None)"

definition modes_new :: "'m env \<Rightarrow> json \<Rightarrow> 'm list option" where
  "modes_new c v =
     (if v \<noteq> JNull then
        (case py_len v of
           Inl e \<Rightarrow> None
         | Inr n \<Rightarrow>
             if n > 0 then
               (case py_iter v of Inl e \<Rightarrow> None | Inr items \<Rightarrow> modes_loop c items [])
             else None)
      else None)"

section \<open>The probing order, in the spec's words\<close>

text \<open>
  The spec (section 6) describes where \<^verbatim>\<open>AirQuality.__init__\<close> finds the system and zone
  numbers: in the meta sub-object if it contains the system-number key, else in the config
  sub-object if it does, else in the payload itself. \<open>spec_sub_data\<close> is that description,
  to be compared with \<open>sub_data\<close>, which follows the code. A sub-object is an entry that is
  a dict; a missing or \<^verbatim>\<open>None\<close> entry contains no key.
\<close>

fun obj_of :: "json \<Rightarrow> (string \<times> json) list" where
  "obj_of (JDict d) = d"
| "obj_of v = []"

definition sub_object_ok :: "json \<Rightarrow> bool" where
  "sub_object_ok v = (v = JNull \<or> is_dict v)"

definition spec_sub_data :: "'m env \<Rightarrow> (string \<times> json) list \<Rightarrow> json" where
  "spec_sub_data c device_data =
     (let meta = obj_of (dict_get device_data (api c API_META));
          config = obj_of (dict_get device_data (api c API_CONFIG))
      in if dict_has meta (api c API_SYSTEM_NUMBER) then JDict meta
         else if dict_has config (api c API_SYSTEM_NUMBER) then JDict config
         else JDict device_data)"

section \<open>A sample environment\<close>

text \<open>
  An instance of the parameters, on which the definitions are run. The parsers let a
  value of the target type through, read a decimal string as an int, and answer
  \<^verbatim>\<open>None\<close> otherwise. The key strings are those the spec writes (\<open>meta\<close>, \<open>config\<close>,
  \<open>systemNumber\<close>, \<open>zoneNumber\<close>, \<open>name\<close>, \<open>errors\<close>) and otherwise the constant's own
  name. \<open>sample_str\<close> is exact on strings, ints, booleans and \<^verbatim>\<open>None\<close>, the only values it
  is applied to below.
\<close>

datatype sample_mode = Stop | Auto | Cool | Heat

fun sample_parse_bool :: "json \<Rightarrow> bool option" where
  "sample_parse_bool (JBool b) = Some b"
| "sample_parse_bool v = None"

fun sample_parse_int :: "json \<Rightarrow> int option" where
  "sample_parse_int (JInt i) = Some i"
| "sample_parse_int (JStr s) = int_of_string s"
| "sample_parse_int v = None"

fun sample_parse_float :: "json \<Rightarrow> real option" where
  "sample_parse_float (JFloat r) = Some r"
| "sample_parse_float (JInt i) = Some (real_of_int i)"
| "sample_parse_float v = None"

fun sample_parse_str :: "json \<Rightarrow> string option" where
  "sample_parse_str (JStr s) = Some s"
| "sample_parse_str v = None"

fun sample_OperationMode :: "json \<Rightarrow> sample_mode option" where
  "sample_OperationMode (JInt i) =
     (if i = 0 then Some Stop else if i = 1 then Some Auto
      else if i = 2 then Some Cool else if i = 3 then Some Heat else None)"
| "sample_OperationMode v = None"

fun sample_api :: "api_key \<Rightarrow> string" where
  "sample_api API_AQ_ACTIVE = ''aq_active''"
| "sample_api API_AQ_PM_1 = ''aq_pm_1''"
| "sample_api API_AQ_PM_2P5 = ''aq_pm_2p5''"
| "sample_api API_AQ_PM_10 = ''aq_pm_10''"
| "sample_api API_AQ_CO2 = ''aq_co2''"
| "sample_api API_AQ_TVOC = ''aq_tvoc''"
| "sample_api API_AQ_HUMIDITY = ''aq_humidity''"
| "sample_api API_AQ_TEMP = ''aq_temp''"
| "sample_api API_AQ_TEMP_CELSIUS = ''aq_temp_celsius''"
| "sample_api API_AQ_PRESSURE = ''aq_pressure''"
| "sample_api API_AQ_PRESENT = ''aq_present''"
| "sample_api API_AQ_VENT_ACTIVE = ''aq_vent_active''"
| "sample_api API_AQ_QUALITY = ''aq_quality''"
| "sample_api API_AQ_SCORE = ''aq_score''"
| "sample_api API_AQ_SENSOR_FW = ''aq_sensor_fw''"
| "sample_api API_AUTO_MODE = ''auto_mode''"
| "sample_api API_CONFIG = ''config''"
| "sample_api API_DEVICE_ID = ''device_id''"
| "sample_api API_DOUBLE_SET_POINT = ''double_set_point''"
| "sample_api API_DUAL_SP_CONF = ''dual_sp_conf''"
| "sample_api API_ERRORS = ''errors''"
| "sample_api API_IS_CONNECTED = ''is_connected''"
| "sample_api API_META = ''meta''"
| "sample_api API_MODE = ''mode''"
| "sample_api API_MODE_AVAIL = ''mode_avail''"
| "sample_api API_NAME = ''name''"
| "sample_api API_SIMULATOR_MODE = ''simulator_mode''"
| "sample_api API_SYSTEM_NUMBER = ''systemNumber''"
| "sample_api API_WARNINGS = ''warnings''"
| "sample_api API_WS_CONNECTED = ''ws_connected''"
| "sample_api API_ZONE_NUMBER = ''zoneNumber''"

fun sample_azd :: "azd_key \<Rightarrow> string" where
  "sample_azd AZD_AQ_ACTIVE = ''aq_active''"
| "sample_azd AZD_AQ_QUALITY = ''aq_quality''"
| "sample_azd AZD_AQ_SCORE = ''aq_score''"
| "sample_azd AZD_AQ_PM_1 = ''aq_pm_1''"
| "sample_azd AZD_AQ_PM_2P5 = ''aq_pm_2p5''"
| "sample_azd AZD_AQ_PM_10 = ''aq_pm_10''"
| "sample_azd AZD_AQ_CO2 = ''aq_co2''"
| "sample_azd AZD_AQ_TVOC = ''aq_tvoc''"
| "sample_azd AZD_AQ_HUMIDITY = ''aq_humidity''"
| "sample_azd AZD_AQ_TEMP = ''aq_temp''"
| "sample_azd AZD_AQ_PRESSURE = ''aq_pressure''"
| "sample_azd AZD_AQ_PRESENT = ''aq_present''"
| "sample_azd AZD_AQ_VENT_ACTIVE = ''aq_vent_active''"
| "sample_azd AZD_AVAILABLE = ''available''"
| "sample_azd AZD_DOUBLE_SET_POINT = ''double_set_point''"
| "sample_azd AZD_DUAL_SP_CONF = ''dual_sp_conf''"
| "sample_azd AZD_ERRORS = ''errors''"
| "sample_azd AZD_FIRMWARE = ''firmware''"
| "sample_azd AZD_ID = ''id''"
| "sample_azd AZD_INSTALLATION = ''installation''"
| "sample_azd AZD_IS_CONNECTED = ''is_connected''"
| "sample_azd AZD_MODE = ''mode''"
| "sample_azd AZD_MODE_AUTO = ''mode_auto''"
| "sample_azd AZD_MODES = ''modes''"
| "sample_azd AZD_NAME = ''name''"
| "sample_azd AZD_PROBLEMS = ''problems''"
| "sample_azd AZD_SIMULATOR_MODE = ''simulator_mode''"
| "sample_azd AZD_SYSTEM = ''system''"
| "sample_azd AZD_WARNINGS = ''warnings''"
| "sample_azd AZD_WEBSERVER = ''webserver''"
| "sample_azd AZD_WS_CONNECTED = ''ws_connected''"
| "sample_azd AZD_ZONE = ''zone''"

fun sample_str :: "json \<Rightarrow> string" where
  "sample_str (JStr s) = s"
| "sample_str (JInt i) = str_of_int i"
| "sample_str (JBool b) = (if b then ''True'' else ''False'')"
| "sample_str JNull = ''None''"
| "sample_str v = []"

definition sample_env :: "sample_mode env" where
  "sample_env =
     \<lparr>parse_bool = sample_parse_bool, parse_int = sample_parse_int,
      parse_float = sample_parse_float, parse_str = sample_parse_str,
      OperationMode = sample_OperationMode, api = sample_api, azd = sample_azd,
      API_AQ_QUALITY_LEVELS = [(JStr ''1'', ''good''), (JStr ''2'', ''regular''), (JStr ''3'', ''bad'')],
      py_str = sample_str\<rparr>"

definition sample_device :: "sample_mode Device" where
  "sample_device =
     \<lparr>air_quality = None, auto_mode = None, aq_active = None, aq_pm_1 = Some 5,
      aq_pm_2p5 = None, aq_pm_10 = None, aq_co2 = None, aq_tvoc = None,
      aq_humidity = None, aq_temp = Some 21.5, aq_present = None, aq_quality = Some ''2'',
      aq_score = None, double_set_point = None, dual_sp_conf = None,
      errors = [JStr ''E1''], id' = ''dev1'', installation_id = ''inst1'', mode = Some Auto,
      modes = [Auto, Cool], name = ''Device'', simulator_mode = None, warnings = [],
      webserver_id = ''ws1'', ws_connected = True, is_connected = True\<rparr>"

definition sample_air_quality :: "sample_mode AirQuality" where
  "sample_air_quality =
     Device.extend (sample_device\<lparr>aq_pm_1 := Some 12, aq_quality := Some ''1'', name := ''Air Quality 1:2''\<rparr>)
       (AirQuality.fields None Map.empty Map.empty None JNull 1 2)"

definition sample_heap :: "sample_mode heap" where
  "sample_heap r = sample_air_quality"


section \<open>The derived getters\<close>

text \<open>
  C10. For every Device state, \<^verbatim>\<open>get_available()\<close> is the conjunction of \<open>is_connected\<close>
  and \<open>ws_connected\<close>, and \<^verbatim>\<open>get_problems()\<close> is true exactly when the error list or the
  warning list is nonempty. Both getters are functions of the state alone: they return a
  value and leave the state as it is.
\<close>

theorem derived_status_getters:
  "get_available d = (is_connected d \<and> ws_connected d) \<and>
   get_problems d = (errors d \<noteq> [] \<or> warnings d \<noteq> [])"
  by (simp add: get_available_def get_problems_def)

theorem derived_status_getters_witness:
  "get_available sample_device = True \<and> get_problems sample_device = True
   \<and> get_available (sample_device\<lparr>ws_connected := False, errors := []\<rparr>) = False
   \<and> get_problems (sample_device\<lparr>ws_connected := False, errors := []\<rparr>) = False"
  using derived_status_getters [of sample_device]
    derived_status_getters [of "sample_device\<lparr>ws_connected := False, errors := []\<rparr>"]
  by (simp add: sample_device_def)

section \<open>Delegation to the attached AirQuality\<close>



section \<open>The guarded mode setter\<close>

text \<open>
  C6, as the spec states it, fails: \<^verbatim>\<open>set_mode\<close> accepts \<^verbatim>\<open>int | OperationMode\<close> and calls
  \<^verbatim>\<open>OperationMode(mode)\<close> before the membership test, with no handler. On a raw value that
  the enumeration does not recognise the ValueError reaches the caller.
\<close>

theorem set_mode_raises_on_unknown_value:
  "set_mode sample_env sample_device (RawMode (JInt 99)) = Raise ValueError sample_device"
  by (simp add: set_mode_def sample_env_def)

text \<open>
  C6, amended. \<^verbatim>\<open>set_mode(m)\<close> with a member \<open>m\<close> of the enumeration that is in the Device's
  list of modes sets \<open>mode\<close> to \<open>m\<close>; with a member that is not in the list it leaves the
  Device as it is and returns normally. A raw value that \<^verbatim>\<open>OperationMode\<close> recognises as \<open>m\<close>
  behaves as \<open>m\<close> does. A raw value that \<^verbatim>\<open>OperationMode\<close> does not recognise raises
  ValueError to the caller and leaves the Device as it is.
\<close>

theorem set_mode_outcomes:
  "(m \<in> set (modes d) \<longrightarrow> set_mode c d (EnumMode m) = Ok (d\<lparr>mode := Some m\<rparr>)) \<and>
   (m \<notin> set (modes d) \<longrightarrow> set_mode c d (EnumMode m) = Ok d) \<and>
   (OperationMode c v = Some m \<longrightarrow> set_mode c d (RawMode v) = set_mode c d (EnumMode m)) \<and>
   (OperationMode c w = None \<longrightarrow> set_mode c d (RawMode w) = Raise ValueError d)"
  by (simp add: set_mode_def)

theorem set_mode_outcomes_witness:
  "modes sample_device = [Auto, Cool] \<and>
   set_mode sample_env sample_device (EnumMode Heat) = Ok sample_device \<and>
   mode (state_of (set_mode sample_env sample_device (EnumMode Heat))) = Some Auto \<and>
   mode (state_of (set_mode sample_env sample_device (EnumMode Cool))) = Some Cool \<and>
   mode (state_of (set_mode sample_env sample_device (RawMode (JInt 2)))) = Some Cool \<and>
   raised (set_mode sample_env sample_device (RawMode (JStr ''heat''))) = Some ValueError"
  using set_mode_outcomes [of Heat sample_device sample_env "JInt 3" "JStr ''heat''"]
    set_mode_outcomes [of Cool sample_device sample_env "JInt 2" "JStr ''heat''"]
  by (simp add: sample_device_def sample_env_def)

section \<open>The status getter that calls itself\<close>

lemma get_aq_status_limit: "get_aq_status frames self = Inl RecursionError"
  by (induction frames) simp_all

text \<open>
  C9, as stated, fails: the call does not diverge. With the default limit of 1000 frames
  (and with any other) the chain of self-calls ends at the recursion limit, and the
  RecursionError raised there passes through every frame to the caller.
\<close>

theorem get_aq_status_ends_at_limit: "get_aq_status 1000 sample_device = Inl RecursionError"
  by (rule get_aq_status_limit)

text \<open>
  C9, amended. \<^verbatim>\<open>Device.get_aq_status\<close> never returns a value: on every Device and with any
  number of stack frames available, the call re-invokes itself on the same object before
  any base case until the interpreter's recursion limit is hit, and RecursionError reaches
  the caller. The branch after the inner call, with its undefined table, is never run: no
  value is returned and NameError is never raised.
\<close>

theorem get_aq_status_never_returns:
  "get_aq_status frames d = Inl RecursionError \<and>
   get_aq_status frames d \<noteq> Inl NameError \<and>
   get_aq_status frames d \<noteq> Inr v"
  by (simp add: get_aq_status_limit)

theorem get_aq_status_never_returns_witness:
  "get_aq_status (Suc (Suc (Suc 0))) sample_device = Inl RecursionError \<and>
   get_aq_status 0 sample_device = Inl RecursionError"
  using get_aq_status_never_returns [of "Suc (Suc (Suc 0))" sample_device None]
    get_aq_status_never_returns [of 0 sample_device None]
  by simp

section \<open>update_data, block by block\<close>

text \<open>
  Every block has the same shape: it writes one attribute with a value computed from the
  payload alone, and the exception it may raise depends on the payload alone.
\<close>

lemma keep_keep: "keep p (keep p x) = keep p x"
  by (simp add: keep_def split: option.split)

lemma keep_None: "keep None x = x"
  by (simp add: keep_def)

lemma keep_Some: "keep (Some v) x = v"
  by (simp add: keep_def)

lemma run_steps_mk:
  "(case mk e s of Ok s' \<Rightarrow> K s' | Raise x s' \<Rightarrow> Raise x s') =
   (case e of None \<Rightarrow> K s | Some x \<Rightarrow> Raise x s)"
  by (cases e) simp_all

lemma shape_is_connected:
  "upd_is_connected c data s =
     Ok (s\<lparr>is_connected := keep (parse_bool c (dict_get data (api c API_IS_CONNECTED))) (is_connected s)\<rparr>)"
  by (simp add: upd_is_connected_def keep_def split: option.split)

lemma shape_ws_connected:
  "upd_ws_connected c data s =
     Ok (s\<lparr>ws_connected := keep (parse_bool c (dict_get data (api c API_WS_CONNECTED))) (ws_connected s)\<rparr>)"
  by (simp add: upd_ws_connected_def keep_def split: option.split)

lemma shape_aq_active:
  "upd_aq_active c data s =
     Ok (s\<lparr>aq_active := keep (map_option Some (parse_bool c (dict_get data (api c API_AQ_ACTIVE)))) (aq_active s)\<rparr>)"
  by (simp add: upd_aq_active_def keep_def split: option.split)

lemma shape_aq_pm_1:
  "upd_aq_pm_1 c data s =
     Ok (s\<lparr>aq_pm_1 := keep (map_option Some (parse_int c (dict_get data (api c API_AQ_PM_1)))) (aq_pm_1 s)\<rparr>)"
  by (simp add: upd_aq_pm_1_def keep_def split: option.split)

lemma shape_aq_pm_2p5:
  "upd_aq_pm_2p5 c data s =
     Ok (s\<lparr>aq_pm_2p5 := keep (map_option Some (parse_int c (dict_get data (api c API_AQ_PM_2P5)))) (aq_pm_2p5 s)\<rparr>)"
  by (simp add: upd_aq_pm_2p5_def keep_def split: option.split)

lemma shape_aq_pm_10:
  "upd_aq_pm_10 c data s =
     Ok (s\<lparr>aq_pm_10 := keep (map_option Some (parse_int c (dict_get data (api c API_AQ_PM_10)))) (aq_pm_10 s)\<rparr>)"
  by (simp add: upd_aq_pm_10_def keep_def split: option.split)

lemma shape_aq_co2:
  "upd_aq_co2 c data s =
     Ok (s\<lparr>aq_co2 := keep (map_option Some (parse_int c (dict_get data (api c API_AQ_CO2)))) (aq_co2 s)\<rparr>)"
  by (simp add: upd_aq_co2_def keep_def split: option.split)

lemma shape_aq_tvoc:
  "upd_aq_tvoc c data s =
     Ok (s\<lparr>aq_tvoc := keep (map_option Some (parse_int c (dict_get data (api c API_AQ_TVOC)))) (aq_tvoc s)\<rparr>)"
  by (simp add: upd_aq_tvoc_def keep_def split: option.split)

lemma shape_aq_humidity:
  "upd_aq_humidity c data s =
     Ok (s\<lparr>aq_humidity := keep (map_option Some (parse_int c (dict_get data (api c API_AQ_HUMIDITY)))) (aq_humidity s)\<rparr>)"
  by (simp add: upd_aq_humidity_def keep_def split: option.split)

lemma shape_aq_present:
  "upd_aq_present c data s =
     Ok (s\<lparr>aq_present := keep (map_option Some (parse_bool c (dict_get data (api c API_AQ_PRESENT)))) (aq_present s)\<rparr>)"
  by (simp add: upd_aq_present_def keep_def split: option.split)

lemma shape_aq_quality:
  "upd_aq_quality c data s =
     Ok (s\<lparr>aq_quality := keep (map_option Some (parse_str c (dict_get data (api c API_AQ_QUALITY)))) (aq_quality s)\<rparr>)"
  by (simp add: upd_aq_quality_def keep_def split: option.split)

lemma shape_aq_score:
  "upd_aq_score c data s =
     Ok (s\<lparr>aq_score := keep (map_option Some (parse_str c (dict_get data (api c API_AQ_SCORE)))) (aq_score s)\<rparr>)"
  by (simp add: upd_aq_score_def keep_def split: option.split)

lemma shape_double_set_point:
  "upd_double_set_point c data s =
     Ok (s\<lparr>double_set_point := keep (map_option Some (parse_bool c (dict_get data (api c API_DOUBLE_SET_POINT)))) (double_set_point s)\<rparr>)"
  by (simp add: upd_double_set_point_def keep_def split: option.split)

lemma shape_dual_sp_conf:
  "upd_dual_sp_conf c data s =
     Ok (s\<lparr>dual_sp_conf := keep (map_option Some (parse_bool c (dict_get data (api c API_DUAL_SP_CONF)))) (dual_sp_conf s)\<rparr>)"
  by (simp add: upd_dual_sp_conf_def keep_def split: option.split)

lemma shape_simulator_mode:
  "upd_simulator_mode c data s =
     Ok (s\<lparr>simulator_mode := keep (map_option Some (parse_bool c (dict_get data (api c API_SIMULATOR_MODE)))) (simulator_mode s)\<rparr>)"
  by (simp add: upd_simulator_mode_def keep_def split: option.split)

lemma shape_aq_vent_active:
  "upd_aq_vent_active c data s =
     Ok (s\<lparr>aq_vent_active := keep (map_option Some (parse_bool c (dict_get data (api c API_AQ_VENT_ACTIVE)))) (aq_vent_active s)\<rparr>)"
  by (simp add: upd_aq_vent_active_def keep_def split: option.split)

lemma shape_aq_sensor_fw:
  "upd_aq_sensor_fw c data s =
     Ok (s\<lparr>aq_sensor_fw := keep (map_option Some (parse_str c (dict_get data (api c API_AQ_SENSOR_FW)))) (aq_sensor_fw s)\<rparr>)"
  by (simp add: upd_aq_sensor_fw_def keep_def split: option.split)

lemma shape_aq_pressure:
  "upd_aq_pressure c data s =
     Ok (s\<lparr>aq_pressure :=
          keep (if dict_get data (api c API_AQ_PRESSURE) \<noteq> JNull
                then Some (dict_get data (api c API_AQ_PRESSURE)) else None) (aq_pressure s)\<rparr>)"
  by (simp add: upd_aq_pressure_def keep_def Let_def)

lemma shape_aq_temp:
  "upd_aq_temp c data s = mk (temp_err c data) (s\<lparr>aq_temp := keep (temp_new c data) (aq_temp s)\<rparr>)"
  by (simp add: upd_aq_temp_def temp_err_def temp_new_def keep_def Let_def split: sum.split)

lemma shape_auto_mode:
  "upd_auto_mode c data s =
     mk (mode_err c (dict_get data (api c API_AUTO_MODE)))
        (s\<lparr>auto_mode := keep (mode_new c (dict_get data (api c API_AUTO_MODE))) (auto_mode s)\<rparr>)"
  by (simp add: upd_auto_mode_def mode_err_def mode_new_def keep_def Let_def split: option.split)

lemma shape_mode:
  "upd_mode c data s =
     mk (mode_err c (dict_get data (api c API_MODE)))
        (s\<lparr>mode := keep (mode_new c (dict_get data (api c API_MODE))) (mode s)\<rparr>)"
  by (simp add: upd_mode_def mode_err_def mode_new_def keep_def Let_def split: option.split)

lemma shape_errors:
  "upd_errors c data s =
     mk (items_err (dict_get data (api c API_ERRORS)))
        (s\<lparr>errors := keep (items_new (dict_get data (api c API_ERRORS))) (errors s)\<rparr>)"
  by (simp add: upd_errors_def items_err_def items_new_def keep_def Let_def split: sum.split)

lemma shape_warnings:
  "upd_warnings c data s =
     mk (items_err (dict_get data (api c API_WARNINGS)))
        (s\<lparr>warnings := keep (items_new (dict_get data (api c API_WARNINGS))) (warnings s)\<rparr>)"
  by (simp add: upd_warnings_def items_err_def items_new_def keep_def Let_def split: sum.split)

lemma shape_modes:
  "upd_modes c data s =
     mk (modes_err c (dict_get data (api c API_MODE_AVAIL)))
        (s\<lparr>modes := keep (modes_new c (dict_get data (api c API_MODE_AVAIL))) (modes s)\<rparr>)"
  by (simp add: upd_modes_def modes_err_def modes_new_def keep_def Let_def
      split: sum.split option.split)

lemmas upd_shapes =
  shape_is_connected shape_ws_connected shape_aq_active shape_aq_pm_1
  shape_aq_pm_2p5 shape_aq_pm_10 shape_aq_co2 shape_aq_tvoc
  shape_aq_humidity shape_aq_present shape_aq_quality shape_aq_score
  shape_double_set_point shape_dual_sp_conf shape_simulator_mode shape_aq_vent_active
  shape_aq_sensor_fw shape_aq_pressure shape_aq_temp shape_auto_mode
  shape_mode shape_errors shape_warnings shape_modes

lemma Device_update_data_twice:
  "Device_update_data c (state_of (Device_update_data c s u)) u = Device_update_data c s u"
  unfolding Device_update_data_def Let_def
  by (simp add: upd_shapes run_steps_mk keep_keep split: option.split)

lemma AirQuality_update_data_twice:
  "AirQuality_update_data c (state_of (AirQuality_update_data c s u)) u =
   AirQuality_update_data c s u"
  unfolding AirQuality_update_data_def Device_update_data_def Let_def
  by (simp add: upd_shapes run_steps_mk keep_keep split: option.split)

lemma temp_err_None: "(temp_err c data = None) = temp_value_ok (dict_get data (api c API_AQ_TEMP))"
  by (cases "dict_get data (api c API_AQ_TEMP)") (simp_all add: temp_err_def temp_value_ok_def)

lemma mode_err_None: "(mode_err c v = None) = mode_value_ok c v"
  by (simp add: mode_err_def mode_value_ok_def recognised_def)

lemma items_err_None: "(items_err v = None) = items_value_ok v"
  by (cases v) (simp_all add: items_err_def items_value_ok_def)

lemma modes_loop_None: "(modes_loop c xs acc = None) = (\<not> list_all (recognised c) xs)"
  by (induction xs arbitrary: acc) (auto simp: recognised_def split: option.split)

lemma no_error_iff: "((case x of None \<Rightarrow> Some e | Some y \<Rightarrow> None) = None) = (x \<noteq> None)"
  by (cases x) simp_all

lemma modes_err_None: "(modes_err c v = None) = mode_list_ok c v"
  by (cases v) (auto simp: modes_err_def mode_list_ok_def no_error_iff modes_loop_None)

lemma Device_update_data_returns:
  "returns (Device_update_data c s u) = envelope_ok c (get_data u)"
  unfolding Device_update_data_def Let_def
  by (simp add: upd_shapes run_steps_mk envelope_ok_def temp_err_None [symmetric]
      mode_err_None [symmetric] items_err_None [symmetric] modes_err_None [symmetric]
      split: option.split)

lemma AirQuality_update_data_returns:
  "returns (AirQuality_update_data c s u) = envelope_ok c (get_data u)"
  unfolding AirQuality_update_data_def Device_update_data_def Let_def
  by (simp add: upd_shapes run_steps_mk envelope_ok_def temp_err_None [symmetric]
      mode_err_None [symmetric] items_err_None [symmetric] modes_err_None [symmetric]
      split: option.split)

lemma envelope_ok_errs:
  "envelope_ok c data \<Longrightarrow>
     temp_err c data = None \<and> mode_err c (dict_get data (api c API_AUTO_MODE)) = None \<and>
     items_err (dict_get data (api c API_ERRORS)) = None \<and>
     mode_err c (dict_get data (api c API_MODE)) = None \<and>
     modes_err c (dict_get data (api c API_MODE_AVAIL)) = None \<and>
     items_err (dict_get data (api c API_WARNINGS)) = None"
  by (simp add: envelope_ok_def temp_err_None mode_err_None items_err_None modes_err_None)

lemmas upd_defs =
  upd_is_connected_def upd_ws_connected_def upd_aq_active_def upd_aq_pm_1_def
  upd_aq_pm_2p5_def upd_aq_pm_10_def upd_aq_co2_def upd_aq_tvoc_def upd_aq_humidity_def
  upd_aq_temp_def upd_aq_present_def upd_aq_quality_def upd_aq_score_def upd_auto_mode_def
  upd_double_set_point_def upd_dual_sp_conf_def upd_errors_def upd_mode_def upd_modes_def
  upd_simulator_mode_def upd_warnings_def upd_aq_vent_active_def upd_aq_pressure_def
  upd_aq_sensor_fw_def

section \<open>Idempotence\<close>

text \<open>
  C4. Applying \<^verbatim>\<open>update_data\<close> with the same envelope a second time, to the state the
  first application left, gives the very result of the first application: the same state
  when it returned, and the same exception with the same state when it raised. This holds
  for \<^verbatim>\<open>Device.update_data\<close> and for \<^verbatim>\<open>AirQuality.update_data\<close>.
\<close>

theorem update_data_idempotent:
  "Device_update_data c (state_of (Device_update_data c d u)) u = Device_update_data c d u \<and>
   AirQuality_update_data c (state_of (AirQuality_update_data c a u)) u =
     AirQuality_update_data c a u"
  by (simp add: Device_update_data_twice AirQuality_update_data_twice)


section \<open>Exceptions out of update_data\<close>

text \<open>
  C2, as the spec states it, fails: \<^verbatim>\<open>update_data\<close> has no handler, so the ValueError of
  \<^verbatim>\<open>OperationMode\<close> on an unrecognised current mode reaches the caller, and the valid
  simulator-mode entry of the same envelope is never processed.
\<close>

theorem update_data_raises_on_unknown_mode:
  "Device_update_data sample_env sample_device
     (EntityUpdate [(''mode'', JInt 99), (''simulator_mode'', JBool True)])
   = Raise ValueError sample_device \<and>
   AirQuality_update_data sample_env sample_air_quality
     (EntityUpdate [(''mode'', JInt 99), (''simulator_mode'', JBool True)])
   = Raise ValueError sample_air_quality \<and>
   simulator_mode sample_device = None"
  by (simp add: Device_update_data_def AirQuality_update_data_def upd_defs sample_env_def
      dict_get_def sample_device_def sample_air_quality_def Device.extend_def AirQuality.fields_def)

lemma temp_err_eq:
  "temp_err c data =
     (if temp_value_ok (dict_get data (api c API_AQ_TEMP)) then None else Some AttributeError)"
  by (cases "dict_get data (api c API_AQ_TEMP)") (simp_all add: temp_err_def temp_value_ok_def)

lemma mode_err_eq: "mode_err c v = (if mode_value_ok c v then None else Some ValueError)"
  by (simp add: mode_err_def mode_value_ok_def recognised_def)

lemma items_err_eq: "items_err v = (if items_value_ok v then None else Some TypeError)"
  by (cases v) (simp_all add: items_err_def items_value_ok_def)

lemma modes_loop_Some_all: "modes_loop c xs acc = Some ms \<Longrightarrow> list_all (recognised c) xs"
  using modes_loop_None [of c xs acc] by simp

lemma modes_err_eq:
  "modes_err c v =
     (if mode_list_ok c v then None else Some (if iterable v then ValueError else TypeError))"
  by (cases v)
     (auto simp: modes_err_def mode_list_ok_def modes_loop_None split: option.split
       dest: modes_loop_Some_all)

lemmas err_eqs = temp_err_eq mode_err_eq items_err_eq modes_err_eq

lemmas past_defs =
  past_temp_def past_auto_mode_def past_errors_def past_mode_def past_modes_def envelope_ok_def

lemma Device_update_data_raised:
  "raised (Device_update_data c s u) = update_error c (get_data u)"
  unfolding Device_update_data_def Let_def
  by (simp add: upd_shapes run_steps_mk err_eqs update_error_def)

lemma AirQuality_update_data_raised:
  "raised (AirQuality_update_data c s u) = update_error c (get_data u)"
  unfolding AirQuality_update_data_def Device_update_data_def Let_def
  by (simp add: upd_shapes run_steps_mk err_eqs update_error_def)

lemma Device_after_is_connected:
  "data = get_data u \<Longrightarrow>
     is_connected (state_of (Device_update_data c d u)) =
       keep (parse_bool c (dict_get data (api c API_IS_CONNECTED))) (is_connected d)"
  unfolding Device_update_data_def Let_def
  by (simp add: upd_shapes run_steps_mk err_eqs past_defs)

lemma Device_after_ws_connected:
  "data = get_data u \<Longrightarrow>
     ws_connected (state_of (Device_update_data c d u)) =
       keep (parse_bool c (dict_get data (api c API_WS_CONNECTED))) (ws_connected d)"
  unfolding Device_update_data_def Let_def
  by (simp add: upd_shapes run_steps_mk err_eqs past_defs)

lemma Device_after_aq_active:
  "data = get_data u \<Longrightarrow>
     aq_active (state_of (Device_update_data c d u)) =
       keep (map_option Some (parse_bool c (dict_get data (api c API_AQ_ACTIVE)))) (aq_active d)"
  unfolding Device_update_data_def Let_def
  by (simp add: upd_shapes run_steps_mk err_eqs past_defs)

lemma Device_after_aq_pm_1:
  "data = get_data u \<Longrightarrow>
     aq_pm_1 (state_of (Device_update_data c d u)) =
       keep (map_option Some (parse_int c (dict_get data (api c API_AQ_PM_1)))) (aq_pm_1 d)"
  unfolding Device_update_data_def Let_def
  by (simp add: upd_shapes run_steps_mk err_eqs past_defs)

lemma Device_after_aq_pm_2p5:
  "data = get_data u \<Longrightarrow>
     aq_pm_2p5 (state_of (Device_update_data c d u)) =
       keep (map_option Some (parse_int c (dict_get data (api c API_AQ_PM_2P5)))) (aq_pm_2p5 d)"
  unfolding Device_update_data_def Let_def
  by (simp add: upd_shapes run_steps_mk err_eqs past_defs)

lemma Device_after_aq_pm_10:
  "data = get_data u \<Longrightarrow>
     aq_pm_10 (state_of (Device_update_data c d u)) =
       keep (map_option Some (parse_int c (dict_get data (api c API_AQ_PM_10)))) (aq_pm_10 d)"
  unfolding Device_update_data_def Let_def
  by (simp add: upd_shapes run_steps_mk err_eqs past_defs)

lemma Device_after_aq_co2:
  "data = get_data u \<Longrightarrow>
     aq_co2 (state_of (Device_update_data c d u)) =
       keep (map_option Some (parse_int c (dict_get data (api c API_AQ_CO2)))) (aq_co2 d)"
  unfolding Device_update_data_def Let_def
  by (simp add: upd_shapes run_steps_mk err_eqs past_defs)

lemma Device_after_aq_tvoc:
  "data = get_data u \<Longrightarrow>
     aq_tvoc (state_of (Device_update_data c d u)) =
       keep (map_option Some (parse_int c (dict_get data (api c API_AQ_TVOC)))) (aq_tvoc d)"
  unfolding Device_update_data_def Let_def
  by (simp add: upd_shapes run_steps_mk err_eqs past_defs)

lemma Device_after_aq_humidity:
  "data = get_data u \<Longrightarrow>
     aq_humidity (state_of (Device_update_data c d u)) =
       keep (map_option Some (parse_int c (dict_get data (api c API_AQ_HUMIDITY)))) (aq_humidity d)"
  unfolding Device_update_data_def Let_def
  by (simp add: upd_shapes run_steps_mk err_eqs past_defs)

lemma Device_after_aq_temp:
  "data = get_data u \<Longrightarrow>
     aq_temp (state_of (Device_update_data c d u)) =
       keep (temp_new c data) (aq_temp d)"
  unfolding Device_update_data_def Let_def
  by (simp add: upd_shapes run_steps_mk err_eqs past_defs)

lemma Device_after_aq_present:
  "data = get_data u \<Longrightarrow>
     aq_present (state_of (Device_update_data c d u)) =
       (if past_temp c data then keep (map_option Some (parse_bool c (dict_get data (api c API_AQ_PRESENT)))) (aq_present d)
        else aq_present d)"
  unfolding Device_update_data_def Let_def
  by (simp add: upd_shapes run_steps_mk err_eqs past_defs)

lemma Device_after_aq_quality:
  "data = get_data u \<Longrightarrow>
     aq_quality (state_of (Device_update_data c d u)) =
       (if past_temp c data then keep (map_option Some (parse_str c (dict_get data (api c API_AQ_QUALITY)))) (aq_quality d)
        else aq_quality d)"
  unfolding Device_update_data_def Let_def
  by (simp add: upd_shapes run_steps_mk err_eqs past_defs)

lemma Device_after_aq_score:
  "data = get_data u \<Longrightarrow>
     aq_score (state_of (Device_update_data c d u)) =
       (if past_temp c data then keep (map_option Some (parse_str c (dict_get data (api c API_AQ_SCORE)))) (aq_score d)
        else aq_score d)"
  unfolding Device_update_data_def Let_def
  by (simp add: upd_shapes run_steps_mk err_eqs past_defs)

lemma Device_after_auto_mode:
  "data = get_data u \<Longrightarrow>
     auto_mode (state_of (Device_update_data c d u)) =
       (if past_temp c data then keep (mode_new c (dict_get data (api c API_AUTO_MODE))) (auto_mode d)
        else auto_mode d)"
  unfolding Device_update_data_def Let_def
  by (simp add: upd_shapes run_steps_mk err_eqs past_defs)

lemma Device_after_double_set_point:
  "data = get_data u \<Longrightarrow>
     double_set_point (state_of (Device_update_data c d u)) =
       (if past_auto_mode c data then keep (map_option Some (parse_bool c (dict_get data (api c API_DOUBLE_SET_POINT)))) (double_set_point d)
        else double_set_point d)"
  unfolding Device_update_data_def Let_def
  by (simp add: upd_shapes run_steps_mk err_eqs past_defs)

lemma Device_after_dual_sp_conf:
  "data = get_data u \<Longrightarrow>
     dual_sp_conf (state_of (Device_update_data c d u)) =
       (if past_auto_mode c data then keep (map_option Some (parse_bool c (dict_get data (api c API_DUAL_SP_CONF)))) (dual_sp_conf d)
        else dual_sp_conf d)"
  unfolding Device_update_data_def Let_def
  by (simp add: upd_shapes run_steps_mk err_eqs past_defs)

lemma Device_after_errors:
  "data = get_data u \<Longrightarrow>
     errors (state_of (Device_update_data c d u)) =
       (if past_auto_mode c data then keep (items_new (dict_get data (api c API_ERRORS))) (errors d)
        else errors d)"
  unfolding Device_update_data_def Let_def
  by (simp add: upd_shapes run_steps_mk err_eqs past_defs)

lemma Device_after_mode:
  "data = get_data u \<Longrightarrow>
     mode (state_of (Device_update_data c d u)) =
       (if past_errors c data then keep (mode_new c (dict_get data (api c API_MODE))) (mode d)
        else mode d)"
  unfolding Device_update_data_def Let_def
  by (simp add: upd_shapes run_steps_mk err_eqs past_defs)

lemma Device_after_modes:
  "data = get_data u \<Longrightarrow>
     modes (state_of (Device_update_data c d u)) =
       (if past_mode c data then keep (modes_new c (dict_get data (api c API_MODE_AVAIL))) (modes d)
        else modes d)"
  unfolding Device_update_data_def Let_def
  by (simp add: upd_shapes run_steps_mk err_eqs past_defs)

lemma Device_after_simulator_mode:
  "data = get_data u \<Longrightarrow>
     simulator_mode (state_of (Device_update_data c d u)) =
       (if past_modes c data then keep (map_option Some (parse_bool c (dict_get data (api c API_SIMULATOR_MODE)))) (simulator_mode d)
        else simulator_mode d)"
  unfolding Device_update_data_def Let_def
  by (simp add: upd_shapes run_steps_mk err_eqs past_defs)

lemma Device_after_warnings:
  "data = get_data u \<Longrightarrow>
     warnings (state_of (Device_update_data c d u)) =
       (if past_modes c data then keep (items_new (dict_get data (api c API_WARNINGS))) (warnings d)
        else warnings d)"
  unfolding Device_update_data_def Let_def
  by (simp add: upd_shapes run_steps_mk err_eqs past_defs)

lemma AirQuality_after_is_connected:
  "data = get_data u \<Longrightarrow>
     is_connected (state_of (AirQuality_update_data c a u)) =
       keep (parse_bool c (dict_get data (api c API_IS_CONNECTED))) (is_connected a)"
  unfolding AirQuality_update_data_def Device_update_data_def Let_def
  by (simp add: upd_shapes run_steps_mk err_eqs past_defs keep_keep)

lemma AirQuality_after_ws_connected:
  "data = get_data u \<Longrightarrow>
     ws_connected (state_of (AirQuality_update_data c a u)) =
       keep (parse_bool c (dict_get data (api c API_WS_CONNECTED))) (ws_connected a)"
  unfolding AirQuality_update_data_def Device_update_data_def Let_def
  by (simp add: upd_shapes run_steps_mk err_eqs past_defs keep_keep)

lemma AirQuality_after_aq_active:
  "data = get_data u \<Longrightarrow>
     aq_active (state_of (AirQuality_update_data c a u)) =
       keep (map_option Some (parse_bool c (dict_get data (api c API_AQ_ACTIVE)))) (aq_active a)"
  unfolding AirQuality_update_data_def Device_update_data_def Let_def
  by (simp add: upd_shapes run_steps_mk err_eqs past_defs keep_keep)

lemma AirQuality_after_aq_pm_1:
  "data = get_data u \<Longrightarrow>
     aq_pm_1 (state_of (AirQuality_update_data c a u)) =
       keep (map_option Some (parse_int c (dict_get data (api c API_AQ_PM_1)))) (aq_pm_1 a)"
  unfolding AirQuality_update_data_def Device_update_data_def Let_def
  by (simp add: upd_shapes run_steps_mk err_eqs past_defs keep_keep)

lemma AirQuality_after_aq_pm_2p5:
  "data = get_data u \<Longrightarrow>
     aq_pm_2p5 (state_of (AirQuality_update_data c a u)) =
       keep (map_option Some (parse_int c (dict_get data (api c API_AQ_PM_2P5)))) (aq_pm_2p5 a)"
  unfolding AirQuality_update_data_def Device_update_data_def Let_def
  by (simp add: upd_shapes run_steps_mk err_eqs past_defs keep_keep)

lemma AirQuality_after_aq_pm_10:
  "data = get_data u \<Longrightarrow>
     aq_pm_10 (state_of (AirQuality_update_data c a u)) =
       keep (map_option Some (parse_int c (dict_get data (api c API_AQ_PM_10)))) (aq_pm_10 a)"
  unfolding AirQuality_update_data_def Device_update_data_def Let_def
  by (simp add: upd_shapes run_steps_mk err_eqs past_defs keep_keep)

lemma AirQuality_after_aq_co2:
  "data = get_data u \<Longrightarrow>
     aq_co2 (state_of (AirQuality_update_data c a u)) =
       keep (map_option Some (parse_int c (dict_get data (api c API_AQ_CO2)))) (aq_co2 a)"
  unfolding AirQuality_update_data_def Device_update_data_def Let_def
  by (simp add: upd_shapes run_steps_mk err_eqs past_defs keep_keep)

lemma AirQuality_after_aq_tvoc:
  "data = get_data u \<Longrightarrow>
     aq_tvoc (state_of (AirQuality_update_data c a u)) =
       keep (map_option Some (parse_int c (dict_get data (api c API_AQ_TVOC)))) (aq_tvoc a)"
  unfolding AirQuality_update_data_def Device_update_data_def Let_def
  by (simp add: upd_shapes run_steps_mk err_eqs past_defs keep_keep)

lemma AirQuality_after_aq_humidity:
  "data = get_data u \<Longrightarrow>
     aq_humidity (state_of (AirQuality_update_data c a u)) =
       keep (map_option Some (parse_int c (dict_get data (api c API_AQ_HUMIDITY)))) (aq_humidity a)"
  unfolding AirQuality_update_data_def Device_update_data_def Let_def
  by (simp add: upd_shapes run_steps_mk err_eqs past_defs keep_keep)

lemma AirQuality_after_aq_temp:
  "data = get_data u \<Longrightarrow>
     aq_temp (state_of (AirQuality_update_data c a u)) =
       keep (temp_new c data) (aq_temp a)"
  unfolding AirQuality_update_data_def Device_update_data_def Let_def
  by (simp add: upd_shapes run_steps_mk err_eqs past_defs keep_keep)

lemma AirQuality_after_aq_present:
  "data = get_data u \<Longrightarrow>
     aq_present (state_of (AirQuality_update_data c a u)) =
       (if past_temp c data then keep (map_option Some (parse_bool c (dict_get data (api c API_AQ_PRESENT)))) (aq_present a)
        else aq_present a)"
  unfolding AirQuality_update_data_def Device_update_data_def Let_def
  by (simp add: upd_shapes run_steps_mk err_eqs past_defs keep_keep)

lemma AirQuality_after_aq_quality:
  "data = get_data u \<Longrightarrow>
     aq_quality (state_of (AirQuality_update_data c a u)) =
       (if past_temp c data then keep (map_option Some (parse_str c (dict_get data (api c API_AQ_QUALITY)))) (aq_quality a)
        else aq_quality a)"
  unfolding AirQuality_update_data_def Device_update_data_def Let_def
  by (simp add: upd_shapes run_steps_mk err_eqs past_defs keep_keep)

lemma AirQuality_after_aq_score:
  "data = get_data u \<Longrightarrow>
     aq_score (state_of (AirQuality_update_data c a u)) =
       (if past_temp c data then keep (map_option Some (parse_str c (dict_get data (api c API_AQ_SCORE)))) (aq_score a)
        else aq_score a)"
  unfolding AirQuality_update_data_def Device_update_data_def Let_def
  by (simp add: upd_shapes run_steps_mk err_eqs past_defs keep_keep)

lemma AirQuality_after_auto_mode:
  "data = get_data u \<Longrightarrow>
     auto_mode (state_of (AirQuality_update_data c a u)) =
       (if past_temp c data then keep (mode_new c (dict_get data (api c API_AUTO_MODE))) (auto_mode a)
        else auto_mode a)"
  unfolding AirQuality_update_data_def Device_update_data_def Let_def
  by (simp add: upd_shapes run_steps_mk err_eqs past_defs keep_keep)

lemma AirQuality_after_double_set_point:
  "data = get_data u \<Longrightarrow>
     double_set_point (state_of (AirQuality_update_data c a u)) =
       (if past_auto_mode c data then keep (map_option Some (parse_bool c (dict_get data (api c API_DOUBLE_SET_POINT)))) (double_set_point a)
        else double_set_point a)"
  unfolding AirQuality_update_data_def Device_update_data_def Let_def
  by (simp add: upd_shapes run_steps_mk err_eqs past_defs keep_keep)

lemma AirQuality_after_dual_sp_conf:
  "data = get_data u \<Longrightarrow>
     dual_sp_conf (state_of (AirQuality_update_data c a u)) =
       (if past_auto_mode c data then keep (map_option Some (parse_bool c (dict_get data (api c API_DUAL_SP_CONF)))) (dual_sp_conf a)
        else dual_sp_conf a)"
  unfolding AirQuality_update_data_def Device_update_data_def Let_def
  by (simp add: upd_shapes run_steps_mk err_eqs past_defs keep_keep)

lemma AirQuality_after_errors:
  "data = get_data u \<Longrightarrow>
     errors (state_of (AirQuality_update_data c a u)) =
       (if past_auto_mode c data then keep (items_new (dict_get data (api c API_ERRORS))) (errors a)
        else errors a)"
  unfolding AirQuality_update_data_def Device_update_data_def Let_def
  by (simp add: upd_shapes run_steps_mk err_eqs past_defs keep_keep)

lemma AirQuality_after_mode:
  "data = get_data u \<Longrightarrow>
     mode (state_of (AirQuality_update_data c a u)) =
       (if past_errors c data then keep (mode_new c (dict_get data (api c API_MODE))) (mode a)
        else mode a)"
  unfolding AirQuality_update_data_def Device_update_data_def Let_def
  by (simp add: upd_shapes run_steps_mk err_eqs past_defs keep_keep)

lemma AirQuality_after_modes:
  "data = get_data u \<Longrightarrow>
     modes (state_of (AirQuality_update_data c a u)) =
       (if past_mode c data then keep (modes_new c (dict_get data (api c API_MODE_AVAIL))) (modes a)
        else modes a)"
  unfolding AirQuality_update_data_def Device_update_data_def Let_def
  by (simp add: upd_shapes run_steps_mk err_eqs past_defs keep_keep)

lemma AirQuality_after_simulator_mode:
  "data = get_data u \<Longrightarrow>
     simulator_mode (state_of (AirQuality_update_data c a u)) =
       (if past_modes c data then keep (map_option Some (parse_bool c (dict_get data (api c API_SIMULATOR_MODE)))) (simulator_mode a)
        else simulator_mode a)"
  unfolding AirQuality_update_data_def Device_update_data_def Let_def
  by (simp add: upd_shapes run_steps_mk err_eqs past_defs keep_keep)

lemma AirQuality_after_warnings:
  "data = get_data u \<Longrightarrow>
     warnings (state_of (AirQuality_update_data c a u)) =
       (if past_modes c data then keep (items_new (dict_get data (api c API_WARNINGS))) (warnings a)
        else warnings a)"
  unfolding AirQuality_update_data_def Device_update_data_def Let_def
  by (simp add: upd_shapes run_steps_mk err_eqs past_defs keep_keep)

lemma AirQuality_after_aq_vent_active:
  "data = get_data u \<Longrightarrow>
     aq_vent_active (state_of (AirQuality_update_data c a u)) =
       (if envelope_ok c data then keep (map_option Some (parse_bool c (dict_get data (api c API_AQ_VENT_ACTIVE)))) (aq_vent_active a)
        else aq_vent_active a)"
  unfolding AirQuality_update_data_def Device_update_data_def Let_def
  by (simp add: upd_shapes run_steps_mk err_eqs past_defs keep_keep)

lemma AirQuality_after_aq_pressure:
  "data = get_data u \<Longrightarrow>
     aq_pressure (state_of (AirQuality_update_data c a u)) =
       (if envelope_ok c data then keep (if dict_get data (api c API_AQ_PRESSURE) \<noteq> JNull
               then Some (dict_get data (api c API_AQ_PRESSURE)) else None) (aq_pressure a)
        else aq_pressure a)"
  unfolding AirQuality_update_data_def Device_update_data_def Let_def
  by (simp add: upd_shapes run_steps_mk err_eqs past_defs keep_keep)

lemma AirQuality_after_aq_sensor_fw:
  "data = get_data u \<Longrightarrow>
     aq_sensor_fw (state_of (AirQuality_update_data c a u)) =
       (if envelope_ok c data then keep (map_option Some (parse_str c (dict_get data (api c API_AQ_SENSOR_FW)))) (aq_sensor_fw a)
        else aq_sensor_fw a)"
  unfolding AirQuality_update_data_def Device_update_data_def Let_def
  by (simp add: upd_shapes run_steps_mk err_eqs past_defs keep_keep)

lemmas Device_after =
  Device_after_is_connected Device_after_ws_connected Device_after_aq_active
  Device_after_aq_pm_1 Device_after_aq_pm_2p5 Device_after_aq_pm_10
  Device_after_aq_co2 Device_after_aq_tvoc Device_after_aq_humidity
  Device_after_aq_temp Device_after_aq_present Device_after_aq_quality
  Device_after_aq_score Device_after_auto_mode Device_after_double_set_point
  Device_after_dual_sp_conf Device_after_errors Device_after_mode
  Device_after_modes Device_after_simulator_mode Device_after_warnings

lemmas AirQuality_after =
  AirQuality_after_is_connected AirQuality_after_ws_connected AirQuality_after_aq_active
  AirQuality_after_aq_pm_1 AirQuality_after_aq_pm_2p5 AirQuality_after_aq_pm_10
  AirQuality_after_aq_co2 AirQuality_after_aq_tvoc AirQuality_after_aq_humidity
  AirQuality_after_aq_temp AirQuality_after_aq_present AirQuality_after_aq_quality
  AirQuality_after_aq_score AirQuality_after_auto_mode AirQuality_after_double_set_point
  AirQuality_after_dual_sp_conf AirQuality_after_errors AirQuality_after_mode
  AirQuality_after_modes AirQuality_after_simulator_mode AirQuality_after_warnings
  AirQuality_after_aq_vent_active AirQuality_after_aq_pressure AirQuality_after_aq_sensor_fw

lemma py_get_no_dict: "\<not> is_dict v \<Longrightarrow> py_get v k = Inl AttributeError"
  by (cases v) simp_all

lemma temp_new_kept:
  "dict_get data (api c API_AQ_TEMP) = JNull \<or> \<not> past_temp c data \<Longrightarrow> temp_new c data = None"
  by (auto simp: temp_new_def past_temp_def temp_value_ok_def py_get_no_dict)

lemma temp_new_parsed:
  "dict_get data (api c API_AQ_TEMP) = JDict t \<Longrightarrow>
     temp_new c data = Some (parse_float c (dict_get t (api c API_AQ_TEMP_CELSIUS)))"
  by (simp add: temp_new_def)

text \<open>
  C2, amended. \<^verbatim>\<open>Device.update_data\<close> and \<^verbatim>\<open>AirQuality.update_data\<close> return normally
  exactly on the well-formed envelopes (\<open>envelope_ok\<close>). On any other envelope the exception
  of the first block that raises, in the order of the source, reaches the caller
  (\<open>update_error\<close>): the blocks before it have been run, the blocks after it are not run and
  the attributes they feed keep their prior values. A value that a field parser rejects
  never raises and never prevents another field from being processed: every block that
  is reached writes its attribute with the parsed value of its own entry, or keeps the
  prior value when the parser rejects the entry, whatever the other entries hold. The
  temperature attribute is kept when its entry is \<^verbatim>\<open>None\<close> and takes the parsed Celsius
  value when there is one; what it becomes when the Celsius entry is absent or
  unparsable is the matter of C1 and is left out here. (\<open>r\<close> and \<open>ra\<close> are the results of
  the two calls; \<open>keep new old\<close> is \<open>new\<close> when there is one and \<open>old\<close> otherwise.)
\<close>

theorem update_data_outcome:
  assumes "data = get_data u"
    and "r = Device_update_data c d u"
    and "ra = AirQuality_update_data c a u"
  shows
   "returns r = envelope_ok c data \<and>
    returns ra = envelope_ok c data \<and>
    raised r = update_error c data \<and>
    raised ra = update_error c data \<and>
    is_connected (state_of r) =
       keep (parse_bool c (dict_get data (api c API_IS_CONNECTED))) (is_connected d) \<and>
    ws_connected (state_of r) =
       keep (parse_bool c (dict_get data (api c API_WS_CONNECTED))) (ws_connected d) \<and>
    aq_active (state_of r) =
       keep (map_option Some (parse_bool c (dict_get data (api c API_AQ_ACTIVE)))) (aq_active d) \<and>
    aq_pm_1 (state_of r) =
       keep (map_option Some (parse_int c (dict_get data (api c API_AQ_PM_1)))) (aq_pm_1 d) \<and>
    aq_pm_2p5 (state_of r) =
       keep (map_option Some (parse_int c (dict_get data (api c API_AQ_PM_2P5)))) (aq_pm_2p5 d) \<and>
    aq_pm_10 (state_of r) =
       keep (map_option Some (parse_int c (dict_get data (api c API_AQ_PM_10)))) (aq_pm_10 d) \<and>
    aq_co2 (state_of r) =
       keep (map_option Some (parse_int c (dict_get data (api c API_AQ_CO2)))) (aq_co2 d) \<and>
    aq_tvoc (state_of r) =
       keep (map_option Some (parse_int c (dict_get data (api c API_AQ_TVOC)))) (aq_tvoc d) \<and>
    aq_humidity (state_of r) =
       keep (map_option Some (parse_int c (dict_get data (api c API_AQ_HUMIDITY)))) (aq_humidity d) \<and>
    (dict_get data (api c API_AQ_TEMP) = JNull \<or> \<not> past_temp c data \<longrightarrow>
       aq_temp (state_of r) = aq_temp d) \<and>
    (dict_get data (api c API_AQ_TEMP) = JDict t \<and>
     parse_float c (dict_get t (api c API_AQ_TEMP_CELSIUS)) = Some x \<longrightarrow>
       aq_temp (state_of r) = Some x) \<and>
    aq_present (state_of r) =
       (if past_temp c data then keep (map_option Some (parse_bool c (dict_get data (api c API_AQ_PRESENT)))) (aq_present d)
        else aq_present d) \<and>
    aq_quality (state_of r) =
       (if past_temp c data then keep (map_option Some (parse_str c (dict_get data (api c API_AQ_QUALITY)))) (aq_quality d)
        else aq_quality d) \<and>
    aq_score (state_of r) =
       (if past_temp c data then keep (map_option Some (parse_str c (dict_get data (api c API_AQ_SCORE)))) (aq_score d)
        else aq_score d) \<and>
    auto_mode (state_of r) =
       (if past_temp c data then keep (mode_new c (dict_get data (api c API_AUTO_MODE))) (auto_mode d)
        else auto_mode d) \<and>
    double_set_point (state_of r) =
       (if past_auto_mode c data then keep (map_option Some (parse_bool c (dict_get data (api c API_DOUBLE_SET_POINT)))) (double_set_point d)
        else double_set_point d) \<and>
    dual_sp_conf (state_of r) =
       (if past_auto_mode c data then keep (map_option Some (parse_bool c (dict_get data (api c API_DUAL_SP_CONF)))) (dual_sp_conf d)
        else dual_sp_conf d) \<and>
    errors (state_of r) =
       (if past_auto_mode c data then keep (items_new (dict_get data (api c API_ERRORS))) (errors d)
        else errors d) \<and>
    mode (state_of r) =
       (if past_errors c data then keep (mode_new c (dict_get data (api c API_MODE))) (mode d)
        else mode d) \<and>
    modes (state_of r) =
       (if past_mode c data then keep (modes_new c (dict_get data (api c API_MODE_AVAIL))) (modes d)
        else modes d) \<and>
    simulator_mode (state_of r) =
       (if past_modes c data then keep (map_option Some (parse_bool c (dict_get data (api c API_SIMULATOR_MODE)))) (simulator_mode d)
        else simulator_mode d) \<and>
    warnings (state_of r) =
       (if past_modes c data then keep (items_new (dict_get data (api c API_WARNINGS))) (warnings d)
        else warnings d) \<and>
    is_connected (state_of ra) =
       keep (parse_bool c (dict_get data (api c API_IS_CONNECTED))) (is_connected a) \<and>
    ws_connected (state_of ra) =
       keep (parse_bool c (dict_get data (api c API_WS_CONNECTED))) (ws_connected a) \<and>
    aq_active (state_of ra) =
       keep (map_option Some (parse_bool c (dict_get data (api c API_AQ_ACTIVE)))) (aq_active a) \<and>
    aq_pm_1 (state_of ra) =
       keep (map_option Some (parse_int c (dict_get data (api c API_AQ_PM_1)))) (aq_pm_1 a) \<and>
    aq_pm_2p5 (state_of ra) =
       keep (map_option Some (parse_int c (dict_get data (api c API_AQ_PM_2P5)))) (aq_pm_2p5 a) \<and>
    aq_pm_10 (state_of ra) =
       keep (map_option Some (parse_int c (dict_get data (api c API_AQ_PM_10)))) (aq_pm_10 a) \<and>
    aq_co2 (state_of ra) =
       keep (map_option Some (parse_int c (dict_get data (api c API_AQ_CO2)))) (aq_co2 a) \<and>
    aq_tvoc (state_of ra) =
       keep (map_option Some (parse_int c (dict_get data (api c API_AQ_TVOC)))) (aq_tvoc a) \<and>
    aq_humidity (state_of ra) =
       keep (map_option Some (parse_int c (dict_get data (api c API_AQ_HUMIDITY)))) (aq_humidity a) \<and>
    (dict_get data (api c API_AQ_TEMP) = JNull \<or> \<not> past_temp c data \<longrightarrow>
       aq_temp (state_of ra) = aq_temp a) \<and>
    (dict_get data (api c API_AQ_TEMP) = JDict t \<and>
     parse_float c (dict_get t (api c API_AQ_TEMP_CELSIUS)) = Some x \<longrightarrow>
       aq_temp (state_of ra) = Some x) \<and>
    aq_present (state_of ra) =
       (if past_temp c data then keep (map_option Some (parse_bool c (dict_get data (api c API_AQ_PRESENT)))) (aq_present a)
        else aq_present a) \<and>
    aq_quality (state_of ra) =
       (if past_temp c data then keep (map_option Some (parse_str c (dict_get data (api c API_AQ_QUALITY)))) (aq_quality a)
        else aq_quality a) \<and>
    aq_score (state_of ra) =
       (if past_temp c data then keep (map_option Some (parse_str c (dict_get data (api c API_AQ_SCORE)))) (aq_score a)
        else aq_score a) \<and>
    auto_mode (state_of ra) =
       (if past_temp c data then keep (mode_new c (dict_get data (api c API_AUTO_MODE))) (auto_mode a)
        else auto_mode a) \<and>
    double_set_point (state_of ra) =
       (if past_auto_mode c data then keep (map_option Some (parse_bool c (dict_get data (api c API_DOUBLE_SET_POINT)))) (double_set_point a)
        else double_set_point a) \<and>
    dual_sp_conf (state_of ra) =
       (if past_auto_mode c data then keep (map_option Some (parse_bool c (dict_get data (api c API_DUAL_SP_CONF)))) (dual_sp_conf a)
        else dual_sp_conf a) \<and>
    errors (state_of ra) =
       (if past_auto_mode c data then keep (items_new (dict_get data (api c API_ERRORS))) (errors a)
        else errors a) \<and>
    mode (state_of ra) =
       (if past_errors c data then keep (mode_new c (dict_get data (api c API_MODE))) (mode a)
        else mode a) \<and>
    modes (state_of ra) =
       (if past_mode c data then keep (modes_new c (dict_get data (api c API_MODE_AVAIL))) (modes a)
        else modes a) \<and>
    simulator_mode (state_of ra) =
       (if past_modes c data then keep (map_option Some (parse_bool c (dict_get data (api c API_SIMULATOR_MODE)))) (simulator_mode a)
        else simulator_mode a) \<and>
    warnings (state_of ra) =
       (if past_modes c data then keep (items_new (dict_get data (api c API_WARNINGS))) (warnings a)
        else warnings a) \<and>
    aq_vent_active (state_of ra) =
       (if envelope_ok c data then keep (map_option Some (parse_bool c (dict_get data (api c API_AQ_VENT_ACTIVE)))) (aq_vent_active a)
        else aq_vent_active a) \<and>
    aq_pressure (state_of ra) =
       (if envelope_ok c data then keep (if dict_get data (api c API_AQ_PRESSURE) \<noteq> JNull
               then Some (dict_get data (api c API_AQ_PRESSURE)) else None) (aq_pressure a)
        else aq_pressure a) \<and>
    aq_sensor_fw (state_of ra) =
       (if envelope_ok c data then keep (map_option Some (parse_str c (dict_get data (api c API_AQ_SENSOR_FW)))) (aq_sensor_fw a)
        else aq_sensor_fw a)"
proof -
  note after = Device_after [OF assms(1), of c d] AirQuality_after [OF assms(1), of c a]
  have kept: "dict_get data (api c API_AQ_TEMP) = JNull \<or> \<not> past_temp c data \<Longrightarrow>
      keep (temp_new c data) old = old" for old :: "real option"
    by (simp add: temp_new_kept keep_None)
  have parsed: "dict_get data (api c API_AQ_TEMP) = JDict t \<Longrightarrow>
      parse_float c (dict_get t (api c API_AQ_TEMP_CELSIUS)) = Some x \<Longrightarrow>
      keep (temp_new c data) old = Some x" for old :: "real option"
    by (simp add: temp_new_parsed keep_Some)
  show ?thesis
    unfolding assms(2,3)
    by (simp add: after kept parsed Device_update_data_returns AirQuality_update_data_returns
        Device_update_data_raised AirQuality_update_data_raised assms(1) [symmetric])
qed

theorem update_data_outcome_witness:
  "returns (Device_update_data sample_env sample_device
     (EntityUpdate [(''aq_pm_1'', JStr ''abc''), (''aq_co2'', JInt 400),
                    (''simulator_mode'', JBool True)])) \<and>
   aq_pm_1 (state_of (Device_update_data sample_env sample_device
     (EntityUpdate [(''aq_pm_1'', JStr ''abc''), (''aq_co2'', JInt 400),
                    (''simulator_mode'', JBool True)]))) = Some 5 \<and>
   aq_co2 (state_of (Device_update_data sample_env sample_device
     (EntityUpdate [(''aq_pm_1'', JStr ''abc''), (''aq_co2'', JInt 400),
                    (''simulator_mode'', JBool True)]))) = Some 400 \<and>
   simulator_mode (state_of (AirQuality_update_data sample_env sample_air_quality
     (EntityUpdate [(''aq_pm_1'', JStr ''abc''), (''aq_co2'', JInt 400),
                    (''simulator_mode'', JBool True)]))) = Some True \<and>
   raised (Device_update_data sample_env sample_device
     (EntityUpdate [(''aq_co2'', JInt 400), (''mode'', JInt 99),
                    (''simulator_mode'', JBool True)])) = Some ValueError \<and>
   aq_co2 (state_of (Device_update_data sample_env sample_device
     (EntityUpdate [(''aq_co2'', JInt 400), (''mode'', JInt 99),
                    (''simulator_mode'', JBool True)]))) = Some 400 \<and>
   simulator_mode (state_of (Device_update_data sample_env sample_device
     (EntityUpdate [(''aq_co2'', JInt 400), (''mode'', JInt 99),
                    (''simulator_mode'', JBool True)]))) = None \<and>
   aq_temp (state_of (Device_update_data sample_env sample_device
     (EntityUpdate [(''aq_temp'', JDict [(''aq_temp_celsius'', JFloat 19)])]))) = Some 19"
proof -
  let ?u1 = "EntityUpdate [(''aq_pm_1'', JStr ''abc''), (''aq_co2'', JInt 400),
                    (''simulator_mode'', JBool True)]"
  let ?u2 = "EntityUpdate [(''aq_co2'', JInt 400), (''mode'', JInt 99),
                    (''simulator_mode'', JBool True)]"
  let ?u3 = "EntityUpdate [(''aq_temp'', JDict [(''aq_temp_celsius'', JFloat 19)])]"
  have ok1: "envelope_ok sample_env (get_data ?u1)"
    by (simp add: envelope_ok_def sample_env_def dict_get_def temp_value_ok_def
        mode_value_ok_def items_value_ok_def mode_list_ok_def)
  have e2: "update_error sample_env (get_data ?u2) = Some ValueError"
    and p2: "\<not> past_modes sample_env (get_data ?u2)"
    by (simp_all add: update_error_def past_defs sample_env_def dict_get_def temp_value_ok_def
        mode_value_ok_def items_value_ok_def mode_list_ok_def recognised_def)
  have t3: "dict_get (get_data ?u3) (api sample_env API_AQ_TEMP) = JDict [(''aq_temp_celsius'', JFloat 19)]"
    and f3: "parse_float sample_env (dict_get [(''aq_temp_celsius'', JFloat 19)]
               (api sample_env API_AQ_TEMP_CELSIUS)) = Some 19"
    by (simp_all add: sample_env_def dict_get_def)
  note w1 = update_data_outcome [OF refl refl refl, of sample_env sample_device ?u1
      sample_air_quality "[]" 0]
  note w2 = update_data_outcome [OF refl refl refl, of sample_env sample_device ?u2
      sample_air_quality "[]" 0]
  note w3 = update_data_outcome [OF refl refl refl, of sample_env sample_device ?u3
      sample_air_quality "[(''aq_temp_celsius'', JFloat 19)]" 19]
  have r1: "returns (Device_update_data sample_env sample_device ?u1)"
    using w1 ok1 by blast
  have a1: "aq_pm_1 (state_of (Device_update_data sample_env sample_device ?u1)) = Some 5"
    using w1
    by (simp add: sample_env_def dict_get_def keep_def sample_device_def
        int_of_string_def strip_def is_space_def parse_nat_def is_digit_def)
  have b1: "aq_co2 (state_of (Device_update_data sample_env sample_device ?u1)) = Some 400"
    using w1 by (simp add: sample_env_def dict_get_def keep_def)
  have c1: "simulator_mode (state_of (AirQuality_update_data sample_env sample_air_quality ?u1))
      = Some True"
    using w1 ok1 by (simp add: sample_env_def dict_get_def keep_def past_defs)
  have r2: "raised (Device_update_data sample_env sample_device ?u2) = Some ValueError"
    using w2 e2 by simp
  have b2: "aq_co2 (state_of (Device_update_data sample_env sample_device ?u2)) = Some 400"
    using w2 by (simp add: sample_env_def dict_get_def keep_def)
  have c2: "simulator_mode (state_of (Device_update_data sample_env sample_device ?u2)) = None"
    using w2 p2 by (simp add: sample_device_def)
  have a3: "aq_temp (state_of (Device_update_data sample_env sample_device ?u3)) = Some 19"
    using w3 t3 f3 by blast
  from r1 a1 b1 c1 r2 b2 c2 a3 show ?thesis by blast
qed

section \<open>Stickiness and the temperature block\<close>

text \<open>
  What the blocks retain: an attribute fed by a parser keeps its value when the parser
  answers \<^verbatim>\<open>None\<close> on its entry, and an attribute fed by a raw entry keeps its value when
  the entry is \<^verbatim>\<open>None\<close>, whether the call returns or raises. An absent key reads as
  \<^verbatim>\<open>None\<close>, on which the parsers of the spec answer \<^verbatim>\<open>None\<close>.
\<close>

lemma absent_key_parses_to_None:
  "absent_tolerant c \<Longrightarrow> \<not> dict_has data k \<Longrightarrow>
     dict_get data k = JNull \<and> parse_bool c (dict_get data k) = None \<and>
     parse_int c (dict_get data k) = None \<and> parse_float c (dict_get data k) = None \<and>
     parse_str c (dict_get data k) = None"
  by (simp add: absent_tolerant_def dict_has_def dict_get_def)

lemma Device_sticky_is_connected:
  "parse_bool c (dict_get (get_data u) (api c API_IS_CONNECTED)) = None \<Longrightarrow>
     is_connected (state_of (Device_update_data c d u)) = is_connected d"
  unfolding Device_update_data_def Let_def
  by (simp add: upd_shapes run_steps_mk keep_None split: option.split)

lemma Device_sticky_ws_connected:
  "parse_bool c (dict_get (get_data u) (api c API_WS_CONNECTED)) = None \<Longrightarrow>
     ws_connected (state_of (Device_update_data c d u)) = ws_connected d"
  unfolding Device_update_data_def Let_def
  by (simp add: upd_shapes run_steps_mk keep_None split: option.split)

lemma Device_sticky_aq_active:
  "parse_bool c (dict_get (get_data u) (api c API_AQ_ACTIVE)) = None \<Longrightarrow>
     aq_active (state_of (Device_update_data c d u)) = aq_active d"
  unfolding Device_update_data_def Let_def
  by (simp add: upd_shapes run_steps_mk keep_None split: option.split)

lemma Device_sticky_aq_pm_1:
  "parse_int c (dict_get (get_data u) (api c API_AQ_PM_1)) = None \<Longrightarrow>
     aq_pm_1 (state_of (Device_update_data c d u)) = aq_pm_1 d"
  unfolding Device_update_data_def Let_def
  by (simp add: upd_shapes run_steps_mk keep_None split: option.split)

lemma Device_sticky_aq_pm_2p5:
  "parse_int c (dict_get (get_data u) (api c API_AQ_PM_2P5)) = None \<Longrightarrow>
     aq_pm_2p5 (state_of (Device_update_data c d u)) = aq_pm_2p5 d"
  unfolding Device_update_data_def Let_def
  by (simp add: upd_shapes run_steps_mk keep_None split: option.split)

lemma Device_sticky_aq_pm_10:
  "parse_int c (dict_get (get_data u) (api c API_AQ_PM_10)) = None \<Longrightarrow>
     aq_pm_10 (state_of (Device_update_data c d u)) = aq_pm_10 d"
  unfolding Device_update_data_def Let_def
  by (simp add: upd_shapes run_steps_mk keep_None split: option.split)

lemma Device_sticky_aq_co2:
  "parse_int c (dict_get (get_data u) (api c API_AQ_CO2)) = None \<Longrightarrow>
     aq_co2 (state_of (Device_update_data c d u)) = aq_co2 d"
  unfolding Device_update_data_def Let_def
  by (simp add: upd_shapes run_steps_mk keep_None split: option.split)

lemma Device_sticky_aq_tvoc:
  "parse_int c (dict_get (get_data u) (api c API_AQ_TVOC)) = None \<Longrightarrow>
     aq_tvoc (state_of (Device_update_data c d u)) = aq_tvoc d"
  unfolding Device_update_data_def Let_def
  by (simp add: upd_shapes run_steps_mk keep_None split: option.split)

lemma Device_sticky_aq_humidity:
  "parse_int c (dict_get (get_data u) (api c API_AQ_HUMIDITY)) = None \<Longrightarrow>
     aq_humidity (state_of (Device_update_data c d u)) = aq_humidity d"
  unfolding Device_update_data_def Let_def
  by (simp add: upd_shapes run_steps_mk keep_None split: option.split)

lemma Device_sticky_aq_present:
  "parse_bool c (dict_get (get_data u) (api c API_AQ_PRESENT)) = None \<Longrightarrow>
     aq_present (state_of (Device_update_data c d u)) = aq_present d"
  unfolding Device_update_data_def Let_def
  by (simp add: upd_shapes run_steps_mk keep_None split: option.split)

lemma Device_sticky_aq_quality:
  "parse_str c (dict_get (get_data u) (api c API_AQ_QUALITY)) = None \<Longrightarrow>
     aq_quality (state_of (Device_update_data c d u)) = aq_quality d"
  unfolding Device_update_data_def Let_def
  by (simp add: upd_shapes run_steps_mk keep_None split: option.split)

lemma Device_sticky_aq_score:
  "parse_str c (dict_get (get_data u) (api c API_AQ_SCORE)) = None \<Longrightarrow>
     aq_score (state_of (Device_update_data c d u)) = aq_score d"
  unfolding Device_update_data_def Let_def
  by (simp add: upd_shapes run_steps_mk keep_None split: option.split)

lemma Device_sticky_double_set_point:
  "parse_bool c (dict_get (get_data u) (api c API_DOUBLE_SET_POINT)) = None \<Longrightarrow>
     double_set_point (state_of (Device_update_data c d u)) = double_set_point d"
  unfolding Device_update_data_def Let_def
  by (simp add: upd_shapes run_steps_mk keep_None split: option.split)

lemma Device_sticky_dual_sp_conf:
  "parse_bool c (dict_get (get_data u) (api c API_DUAL_SP_CONF)) = None \<Longrightarrow>
     dual_sp_conf (state_of (Device_update_data c d u)) = dual_sp_conf d"
  unfolding Device_update_data_def Let_def
  by (simp add: upd_shapes run_steps_mk keep_None split: option.split)

lemma Device_sticky_simulator_mode:
  "parse_bool c (dict_get (get_data u) (api c API_SIMULATOR_MODE)) = None \<Longrightarrow>
     simulator_mode (state_of (Device_update_data c d u)) = simulator_mode d"
  unfolding Device_update_data_def Let_def
  by (simp add: upd_shapes run_steps_mk keep_None split: option.split)

lemma Device_sticky_aq_temp:
  "dict_get (get_data u) (api c API_AQ_TEMP) = JNull \<Longrightarrow>
     aq_temp (state_of (Device_update_data c d u)) = aq_temp d"
  unfolding Device_update_data_def Let_def
  by (simp add: upd_shapes run_steps_mk keep_None temp_new_def split: option.split)

lemma Device_sticky_auto_mode:
  "dict_get (get_data u) (api c API_AUTO_MODE) = JNull \<Longrightarrow>
     auto_mode (state_of (Device_update_data c d u)) = auto_mode d"
  unfolding Device_update_data_def Let_def
  by (simp add: upd_shapes run_steps_mk keep_None mode_new_def split: option.split)

lemma Device_sticky_errors:
  "dict_get (get_data u) (api c API_ERRORS) = JNull \<Longrightarrow>
     errors (state_of (Device_update_data c d u)) = errors d"
  unfolding Device_update_data_def Let_def
  by (simp add: upd_shapes run_steps_mk keep_None items_new_def split: option.split)

lemma Device_sticky_mode:
  "dict_get (get_data u) (api c API_MODE) = JNull \<Longrightarrow>
     mode (state_of (Device_update_data c d u)) = mode d"
  unfolding Device_update_data_def Let_def
  by (simp add: upd_shapes run_steps_mk keep_None mode_new_def split: option.split)

lemma Device_sticky_modes:
  "dict_get (get_data u) (api c API_MODE_AVAIL) = JNull \<Longrightarrow>
     modes (state_of (Device_update_data c d u)) = modes d"
  unfolding Device_update_data_def Let_def
  by (simp add: upd_shapes run_steps_mk keep_None modes_new_def split: option.split)

lemma Device_sticky_warnings:
  "dict_get (get_data u) (api c API_WARNINGS) = JNull \<Longrightarrow>
     warnings (state_of (Device_update_data c d u)) = warnings d"
  unfolding Device_update_data_def Let_def
  by (simp add: upd_shapes run_steps_mk keep_None items_new_def split: option.split)

lemma AirQuality_sticky_is_connected:
  "parse_bool c (dict_get (get_data u) (api c API_IS_CONNECTED)) = None \<Longrightarrow>
     is_connected (state_of (AirQuality_update_data c a u)) = is_connected a"
  unfolding AirQuality_update_data_def Device_update_data_def Let_def
  by (simp add: upd_shapes run_steps_mk keep_None split: option.split)

lemma AirQuality_sticky_ws_connected:
  "parse_bool c (dict_get (get_data u) (api c API_WS_CONNECTED)) = None \<Longrightarrow>
     ws_connected (state_of (AirQuality_update_data c a u)) = ws_connected a"
  unfolding AirQuality_update_data_def Device_update_data_def Let_def
  by (simp add: upd_shapes run_steps_mk keep_None split: option.split)

lemma AirQuality_sticky_aq_active:
  "parse_bool c (dict_get (get_data u) (api c API_AQ_ACTIVE)) = None \<Longrightarrow>
     aq_active (state_of (AirQuality_update_data c a u)) = aq_active a"
  unfolding AirQuality_update_data_def Device_update_data_def Let_def
  by (simp add: upd_shapes run_steps_mk keep_None split: option.split)

lemma AirQuality_sticky_aq_pm_1:
  "parse_int c (dict_get (get_data u) (api c API_AQ_PM_1)) = None \<Longrightarrow>
     aq_pm_1 (state_of (AirQuality_update_data c a u)) = aq_pm_1 a"
  unfolding AirQuality_update_data_def Device_update_data_def Let_def
  by (simp add: upd_shapes run_steps_mk keep_None split: option.split)

lemma AirQuality_sticky_aq_pm_2p5:
  "parse_int c (dict_get (get_data u) (api c API_AQ_PM_2P5)) = None \<Longrightarrow>
     aq_pm_2p5 (state_of (AirQuality_update_data c a u)) = aq_pm_2p5 a"
  unfolding AirQuality_update_data_def Device_update_data_def Let_def
  by (simp add: upd_shapes run_steps_mk keep_None split: option.split)

lemma AirQuality_sticky_aq_pm_10:
  "parse_int c (dict_get (get_data u) (api c API_AQ_PM_10)) = None \<Longrightarrow>
     aq_pm_10 (state_of (AirQuality_update_data c a u)) = aq_pm_10 a"
  unfolding AirQuality_update_data_def Device_update_data_def Let_def
  by (simp add: upd_shapes run_steps_mk keep_None split: option.split)

lemma AirQuality_sticky_aq_co2:
  "parse_int c (dict_get (get_data u) (api c API_AQ_CO2)) = None \<Longrightarrow>
     aq_co2 (state_of (AirQuality_update_data c a u)) = aq_co2 a"
  unfolding AirQuality_update_data_def Device_update_data_def Let_def
  by (simp add: upd_shapes run_steps_mk keep_None split: option.split)

lemma AirQuality_sticky_aq_tvoc:
  "parse_int c (dict_get (get_data u) (api c API_AQ_TVOC)) = None \<Longrightarrow>
     aq_tvoc (state_of (AirQuality_update_data c a u)) = aq_tvoc a"
  unfolding AirQuality_update_data_def Device_update_data_def Let_def
  by (simp add: upd_shapes run_steps_mk keep_None split: option.split)

lemma AirQuality_sticky_aq_humidity:
  "parse_int c (dict_get (get_data u) (api c API_AQ_HUMIDITY)) = None \<Longrightarrow>
     aq_humidity (state_of (AirQuality_update_data c a u)) = aq_humidity a"
  unfolding AirQuality_update_data_def Device_update_data_def Let_def
  by (simp add: upd_shapes run_steps_mk keep_None split: option.split)

lemma AirQuality_sticky_aq_present:
  "parse_bool c (dict_get (get_data u) (api c API_AQ_PRESENT)) = None \<Longrightarrow>
     aq_present (state_of (AirQuality_update_data c a u)) = aq_present a"
  unfolding AirQuality_update_data_def Device_update_data_def Let_def
  by (simp add: upd_shapes run_steps_mk keep_None split: option.split)

lemma AirQuality_sticky_aq_quality:
  "parse_str c (dict_get (get_data u) (api c API_AQ_QUALITY)) = None \<Longrightarrow>
     aq_quality (state_of (AirQuality_update_data c a u)) = aq_quality a"
  unfolding AirQuality_update_data_def Device_update_data_def Let_def
  by (simp add: upd_shapes run_steps_mk keep_None split: option.split)

lemma AirQuality_sticky_aq_score:
  "parse_str c (dict_get (get_data u) (api c API_AQ_SCORE)) = None \<Longrightarrow>
     aq_score (state_of (AirQuality_update_data c a u)) = aq_score a"
  unfolding AirQuality_update_data_def Device_update_data_def Let_def
  by (simp add: upd_shapes run_steps_mk keep_None split: option.split)

lemma AirQuality_sticky_double_set_point:
  "parse_bool c (dict_get (get_data u) (api c API_DOUBLE_SET_POINT)) = None \<Longrightarrow>
     double_set_point (state_of (AirQuality_update_data c a u)) = double_set_point a"
  unfolding AirQuality_update_data_def Device_update_data_def Let_def
  by (simp add: upd_shapes run_steps_mk keep_None split: option.split)

lemma AirQuality_sticky_dual_sp_conf:
  "parse_bool c (dict_get (get_data u) (api c API_DUAL_SP_CONF)) = None \<Longrightarrow>
     dual_sp_conf (state_of (AirQuality_update_data c a u)) = dual_sp_conf a"
  unfolding AirQuality_update_data_def Device_update_data_def Let_def
  by (simp add: upd_shapes run_steps_mk keep_None split: option.split)

lemma AirQuality_sticky_simulator_mode:
  "parse_bool c (dict_get (get_data u) (api c API_SIMULATOR_MODE)) = None \<Longrightarrow>
     simulator_mode (state_of (AirQuality_update_data c a u)) = simulator_mode a"
  unfolding AirQuality_update_data_def Device_update_data_def Let_def
  by (simp add: upd_shapes run_steps_mk keep_None split: option.split)

lemma AirQuality_sticky_aq_vent_active:
  "parse_bool c (dict_get (get_data u) (api c API_AQ_VENT_ACTIVE)) = None \<Longrightarrow>
     aq_vent_active (state_of (AirQuality_update_data c a u)) = aq_vent_active a"
  unfolding AirQuality_update_data_def Device_update_data_def Let_def
  by (simp add: upd_shapes run_steps_mk keep_None split: option.split)

lemma AirQuality_sticky_aq_sensor_fw:
  "parse_str c (dict_get (get_data u) (api c API_AQ_SENSOR_FW)) = None \<Longrightarrow>
     aq_sensor_fw (state_of (AirQuality_update_data c a u)) = aq_sensor_fw a"
  unfolding AirQuality_update_data_def Device_update_data_def Let_def
  by (simp add: upd_shapes run_steps_mk keep_None split: option.split)

lemma AirQuality_sticky_aq_temp:
  "dict_get (get_data u) (api c API_AQ_TEMP) = JNull \<Longrightarrow>
     aq_temp (state_of (AirQuality_update_data c a u)) = aq_temp a"
  unfolding AirQuality_update_data_def Device_update_data_def Let_def
  by (simp add: upd_shapes run_steps_mk keep_None temp_new_def split: option.split)

lemma AirQuality_sticky_auto_mode:
  "dict_get (get_data u) (api c API_AUTO_MODE) = JNull \<Longrightarrow>
     auto_mode (state_of (AirQuality_update_data c a u)) = auto_mode a"
  unfolding AirQuality_update_data_def Device_update_data_def Let_def
  by (simp add: upd_shapes run_steps_mk keep_None mode_new_def split: option.split)

lemma AirQuality_sticky_errors:
  "dict_get (get_data u) (api c API_ERRORS) = JNull \<Longrightarrow>
     errors (state_of (AirQuality_update_data c a u)) = errors a"
  unfolding AirQuality_update_data_def Device_update_data_def Let_def
  by (simp add: upd_shapes run_steps_mk keep_None items_new_def split: option.split)

lemma AirQuality_sticky_mode:
  "dict_get (get_data u) (api c API_MODE) = JNull \<Longrightarrow>
     mode (state_of (AirQuality_update_data c a u)) = mode a"
  unfolding AirQuality_update_data_def Device_update_data_def Let_def
  by (simp add: upd_shapes run_steps_mk keep_None mode_new_def split: option.split)

lemma AirQuality_sticky_modes:
  "dict_get (get_data u) (api c API_MODE_AVAIL) = JNull \<Longrightarrow>
     modes (state_of (AirQuality_update_data c a u)) = modes a"
  unfolding AirQuality_update_data_def Device_update_data_def Let_def
  by (simp add: upd_shapes run_steps_mk keep_None modes_new_def split: option.split)

lemma AirQuality_sticky_warnings:
  "dict_get (get_data u) (api c API_WARNINGS) = JNull \<Longrightarrow>
     warnings (state_of (AirQuality_update_data c a u)) = warnings a"
  unfolding AirQuality_update_data_def Device_update_data_def Let_def
  by (simp add: upd_shapes run_steps_mk keep_None items_new_def split: option.split)

lemma AirQuality_sticky_aq_pressure:
  "dict_get (get_data u) (api c API_AQ_PRESSURE) = JNull \<Longrightarrow>
     aq_pressure (state_of (AirQuality_update_data c a u)) = aq_pressure a"
  unfolding AirQuality_update_data_def Device_update_data_def Let_def
  by (simp add: upd_shapes run_steps_mk keep_None keep_None split: option.split)

text \<open>
  C1. The claim holds of the code except in the temperature block, which assigns the
  result of \<^verbatim>\<open>parse_float\<close> without testing it, unlike every other parsed attribute. A
  Device with \<open>aq_temp = 21.5\<close> that receives a temperature object without a Celsius entry,
  or with an unparsable one, ends with \<open>aq_temp = None\<close>; so does an AirQuality.
\<close>

theorem aq_temp_cleared_without_celsius:
  "aq_temp sample_device = Some 21.5 \<and>
   Device_update_data sample_env sample_device (EntityUpdate [(''aq_temp'', JDict [])])
     = Ok (sample_device\<lparr>aq_temp := None\<rparr>) \<and>
   Device_update_data sample_env sample_device
     (EntityUpdate [(''aq_temp'', JDict [(''aq_temp_celsius'', JStr ''warm'')])])
     = Ok (sample_device\<lparr>aq_temp := None\<rparr>) \<and>
   AirQuality_update_data sample_env sample_air_quality (EntityUpdate [(''aq_temp'', JDict [])])
     = Ok (sample_air_quality\<lparr>aq_temp := None\<rparr>)"
  by (simp add: Device_update_data_def AirQuality_update_data_def upd_defs sample_env_def
      dict_get_def sample_device_def sample_air_quality_def Device.extend_def AirQuality.fields_def)


section \<open>The list attributes\<close>

lemma append_items_eq: "append_items acc items = acc @ items"
  unfolding append_items_def by (induction items arbitrary: acc) simp_all

lemma modes_loop_Some:
  "modes_loop c xs acc = Some ms \<Longrightarrow> map Some ms = map Some acc @ map (OperationMode c) xs"
  by (induction xs arbitrary: acc) (auto split: option.splits)

lemma Device_update_data_lists:
  "envelope_ok c (get_data u) \<Longrightarrow>
     errors (state_of (Device_update_data c d u)) =
       keep (items_new (dict_get (get_data u) (api c API_ERRORS))) (errors d) \<and>
     warnings (state_of (Device_update_data c d u)) =
       keep (items_new (dict_get (get_data u) (api c API_WARNINGS))) (warnings d) \<and>
     modes (state_of (Device_update_data c d u)) =
       keep (modes_new c (dict_get (get_data u) (api c API_MODE_AVAIL))) (modes d)"
  using envelope_ok_errs [of c "get_data u"]
  by (simp add: Device_update_data_def Let_def upd_shapes run_steps_mk)

lemma modes_new_list:
  "mode_list_ok c (JList zs) \<Longrightarrow> zs \<noteq> [] \<Longrightarrow>
     \<exists>ms. modes_new c (JList zs) = Some ms \<and> map Some ms = map (OperationMode c) zs"
proof -
  assume ok: "mode_list_ok c (JList zs)" and ne: "zs \<noteq> []"
  from ok have "modes_loop c zs [] \<noteq> None"
    by (simp add: mode_list_ok_def modes_loop_None)
  then obtain ms where ms: "modes_loop c zs [] = Some ms" by auto
  from modes_loop_Some [OF ms] have "map Some ms = map (OperationMode c) zs" by simp
  with ms ne show ?thesis by (simp add: modes_new_def)
qed

text \<open>
  C3, as the spec states it, fails for \<open>modes\<close>: the block tests \<^verbatim>\<open>len(mode_avail) > 0\<close>, so
  an envelope whose available-modes key is present with an empty list leaves the prior
  list of modes in place.
\<close>

theorem modes_kept_on_empty_list:
  "modes sample_device = [Auto, Cool] \<and>
   dict_has [(''mode_avail'', JList [])] (api sample_env API_MODE_AVAIL) \<and>
   Device_update_data sample_env sample_device (EntityUpdate [(''mode_avail'', JList [])])
     = Ok sample_device"
  by (simp add: Device_update_data_def upd_defs sample_env_def dict_get_def dict_has_def
      sample_device_def)

text \<open>
  C3, amended. Whenever \<^verbatim>\<open>Device.update_data\<close> returns: an errors or warnings entry that
  is a list replaces the whole prior list, also when it is empty; an available-modes
  entry that is a nonempty list replaces \<open>modes\<close> by the modes of its items, and one that
  is the empty list leaves \<open>modes\<close> as it was; and a key that is absent, or bound to
  \<^verbatim>\<open>None\<close>, leaves the prior list as it was. (\<open>dict_get\<close> is \<open>JNull\<close> in both of these cases.)
\<close>

theorem list_fields_replaced:
  assumes "Device_update_data c d u = Ok d'"
  shows "(dict_get (get_data u) (api c API_ERRORS) = JList xs \<longrightarrow> errors d' = xs) \<and>
         (dict_get (get_data u) (api c API_WARNINGS) = JList ys \<longrightarrow> warnings d' = ys) \<and>
         (dict_get (get_data u) (api c API_MODE_AVAIL) = JList zs \<and> zs \<noteq> [] \<longrightarrow>
            map Some (modes d') = map (OperationMode c) zs) \<and>
         (dict_get (get_data u) (api c API_MODE_AVAIL) = JList [] \<longrightarrow> modes d' = modes d) \<and>
         (\<not> dict_has (get_data u) (api c API_ERRORS) \<longrightarrow> errors d' = errors d) \<and>
         (\<not> dict_has (get_data u) (api c API_WARNINGS) \<longrightarrow> warnings d' = warnings d) \<and>
         (\<not> dict_has (get_data u) (api c API_MODE_AVAIL) \<longrightarrow> modes d' = modes d) \<and>
         (dict_get (get_data u) (api c API_ERRORS) = JNull \<longrightarrow> errors d' = errors d) \<and>
         (dict_get (get_data u) (api c API_WARNINGS) = JNull \<longrightarrow> warnings d' = warnings d) \<and>
         (dict_get (get_data u) (api c API_MODE_AVAIL) = JNull \<longrightarrow> modes d' = modes d)"
proof -
  from assms have "returns (Device_update_data c d u)" by simp
  then have ok: "envelope_ok c (get_data u)"
    by (simp add: Device_update_data_returns)
  from assms have d': "d' = state_of (Device_update_data c d u)" by simp
  note fields = Device_update_data_lists [OF ok, of d, folded d']
  have absent: "\<And>k. \<not> dict_has (get_data u) k \<Longrightarrow> dict_get (get_data u) k = JNull"
    by (simp add: dict_has_def dict_get_def)
  have e: "dict_get (get_data u) (api c API_ERRORS) = JList xs \<longrightarrow> errors d' = xs"
    by (simp add: fields items_new_def append_items_eq keep_def)
  have w: "dict_get (get_data u) (api c API_WARNINGS) = JList ys \<longrightarrow> warnings d' = ys"
    by (simp add: fields items_new_def append_items_eq keep_def)
  have m: "dict_get (get_data u) (api c API_MODE_AVAIL) = JList zs \<and> zs \<noteq> [] \<longrightarrow>
      map Some (modes d') = map (OperationMode c) zs"
  proof
    assume h: "dict_get (get_data u) (api c API_MODE_AVAIL) = JList zs \<and> zs \<noteq> []"
    with ok have "mode_list_ok c (JList zs)" by (simp add: envelope_ok_def)
    from modes_new_list [OF this] h obtain ms
      where "modes_new c (JList zs) = Some ms" "map Some ms = map (OperationMode c) zs" by blast
    with h show "map Some (modes d') = map (OperationMode c) zs"
      by (simp add: fields keep_def)
  qed
  have m0: "dict_get (get_data u) (api c API_MODE_AVAIL) = JList [] \<longrightarrow> modes d' = modes d"
    by (simp add: fields modes_new_def keep_def)
  have ae: "\<not> dict_has (get_data u) (api c API_ERRORS) \<longrightarrow> errors d' = errors d"
    by (auto simp: fields items_new_def keep_def dest: absent)
  have aw: "\<not> dict_has (get_data u) (api c API_WARNINGS) \<longrightarrow> warnings d' = warnings d"
    by (auto simp: fields items_new_def keep_def dest: absent)
  have am: "\<not> dict_has (get_data u) (api c API_MODE_AVAIL) \<longrightarrow> modes d' = modes d"
    by (auto simp: fields modes_new_def keep_def dest: absent)
  have ne: "dict_get (get_data u) (api c API_ERRORS) = JNull \<longrightarrow> errors d' = errors d"
    by (simp add: fields items_new_def keep_def)
  have nw: "dict_get (get_data u) (api c API_WARNINGS) = JNull \<longrightarrow> warnings d' = warnings d"
    by (simp add: fields items_new_def keep_def)
  have nm: "dict_get (get_data u) (api c API_MODE_AVAIL) = JNull \<longrightarrow> modes d' = modes d"
    by (simp add: fields modes_new_def keep_def)
  from e w m m0 ae aw am ne nw nm show ?thesis by blast
qed

theorem list_fields_replaced_witness:
  "Device_update_data sample_env sample_device
     (EntityUpdate [(''errors'', JList []), (''warnings'', JList [JStr ''W1'']),
                    (''mode_avail'', JList [JInt 3, JInt 0])])
     = Ok (sample_device\<lparr>errors := [], warnings := [JStr ''W1''], modes := [Heat, Stop]\<rparr>) \<and>
   errors sample_device = [JStr ''E1''] \<and>
   errors (sample_device\<lparr>errors := [], warnings := [JStr ''W1''], modes := [Heat, Stop]\<rparr>) = [] \<and>
   map Some (modes (sample_device\<lparr>errors := [], warnings := [JStr ''W1''], modes := [Heat, Stop]\<rparr>))
     = map (OperationMode sample_env) [JInt 3, JInt 0] \<and>
   Device_update_data sample_env sample_device (EntityUpdate [(''mode_avail'', JList [])])
     = Ok sample_device \<and>
   \<not> dict_has [(''mode_avail'', JList [])] (api sample_env API_ERRORS)"
proof -
  have r1: "Device_update_data sample_env sample_device
     (EntityUpdate [(''errors'', JList []), (''warnings'', JList [JStr ''W1'']),
                    (''mode_avail'', JList [JInt 3, JInt 0])])
     = Ok (sample_device\<lparr>errors := [], warnings := [JStr ''W1''], modes := [Heat, Stop]\<rparr>)"
    by (simp add: Device_update_data_def upd_defs sample_env_def dict_get_def
        sample_device_def append_items_def)
  have r2: "Device_update_data sample_env sample_device (EntityUpdate [(''mode_avail'', JList [])])
     = Ok sample_device"
    by (simp add: Device_update_data_def upd_defs sample_env_def dict_get_def sample_device_def)
  show ?thesis
    using r1 r2 list_fields_replaced [OF r1, of "[]" "[JStr ''W1'']" "[JInt 3, JInt 0]"]
      list_fields_replaced [OF r2, of "[]" "[]" "[]"]
    by (simp add: sample_env_def dict_get_def dict_has_def sample_device_def)
qed


section \<open>Constructing an AirQuality\<close>

lemma probe_sub_object:
  "sub_object_ok (dict_get device_data (api c k)) \<Longrightarrow>
     probe c device_data k =
       Inr (if dict_has (obj_of (dict_get device_data (api c k))) (api c API_SYSTEM_NUMBER)
            then Some (JDict (obj_of (dict_get device_data (api c k)))) else None)"
  by (cases "dict_get device_data (api c k)")
     (auto simp: probe_def sub_object_ok_def dict_has_def dict_get_def Let_def split: option.splits)

lemma sub_data_refines:
  "sub_object_ok (dict_get device_data (api c API_META)) \<Longrightarrow>
   sub_object_ok (dict_get device_data (api c API_CONFIG)) \<Longrightarrow>
     sub_data c device_data = Inr (spec_sub_data c device_data)"
  by (simp add: sub_data_def probe_sub_object spec_sub_data_def Let_def)

lemma AirQuality_init_needs_id:
  "map_of device_data (api c API_DEVICE_ID) = None \<Longrightarrow>
     AirQuality_init c inst_id ws_id device_data = Inl KeyError"
  by (simp add: AirQuality_init_def Device_init_def)

text \<open>
  C7, as the spec states it, fails on its scenario: the payload written there has no
  device id, and \<^verbatim>\<open>Device.__init__\<close>, which \<^verbatim>\<open>AirQuality.__init__\<close> calls first, reads
  \<^verbatim>\<open>device_data[API_DEVICE_ID]\<close>. Construction raises KeyError.
\<close>

theorem AirQuality_init_scenario_without_id:
  "AirQuality_init sample_env ''inst1'' ''ws1''
     [(''meta'', JDict [(''systemNumber'', JStr ''1''), (''zoneNumber'', JStr ''2'')]),
      (''name'', JNull)]
   = Inl KeyError"
  by (simp add: AirQuality_init_def Device_init_def sample_env_def)

text \<open>
  C7, amended. For a payload that carries a device id and whose meta and config entries,
  when present, are sub-objects or \<^verbatim>\<open>None\<close>: \<open>sub_data\<close> returns what the probing order of
  the spec selects (meta, else config, else the payload; the first that contains the
  system-number key); when \<^verbatim>\<open>int\<close> succeeds on the system and zone entries found there,
  construction succeeds with these two ints as \<open>system_number\<close> and \<open>zone_number\<close>, and the
  name is the parsed payload name, or \<open>Air Quality {system_number}:{zone_number}\<close> when
  the payload name parses to \<^verbatim>\<open>None\<close>. The scenario of the spec, with a device id added,
  yields the name \<open>Air Quality 1:2\<close> and the numbers 1 and 2.
\<close>

theorem AirQuality_init_located:
  assumes "map_of device_data (api c API_DEVICE_ID) = Some dev_id"
    and "sub_object_ok (dict_get device_data (api c API_META))"
    and "sub_object_ok (dict_get device_data (api c API_CONFIG))"
    and "int_at (spec_sub_data c device_data) (api c API_SYSTEM_NUMBER) = Inr sn"
    and "int_at (spec_sub_data c device_data) (api c API_ZONE_NUMBER) = Inr zn"
  shows "sub_data c device_data = Inr (spec_sub_data c device_data) \<and>
         (\<exists>a. AirQuality_init c inst_id ws_id device_data = Inr a \<and>
              system_number a = sn \<and> zone_number a = zn \<and>
              name a = (case parse_str c (dict_get device_data (api c API_NAME)) of
                          Some device_name \<Rightarrow> device_name
                        | None \<Rightarrow> ''Air Quality '' @ str_of_int sn @ '':'' @ str_of_int zn))"
proof -
  have sub: "sub_data c device_data = Inr (spec_sub_data c device_data)"
    using assms(2,3) by (rule sub_data_refines)
  show ?thesis
    using assms(1,4,5) sub
    by (simp add: AirQuality_init_def Device_init_def Let_def split: option.split)
qed

theorem AirQuality_init_located_witness:
  "map_of [(''device_id'', JStr ''aq1''),
           (''meta'', JDict [(''systemNumber'', JStr ''1''), (''zoneNumber'', JStr ''2'')]),
           (''name'', JNull)] (api sample_env API_DEVICE_ID) = Some (JStr ''aq1'') \<and>
   (case AirQuality_init sample_env ''inst1'' ''ws1''
           [(''device_id'', JStr ''aq1''),
            (''meta'', JDict [(''systemNumber'', JStr ''1''), (''zoneNumber'', JStr ''2'')]),
            (''name'', JNull)] of
      Inr a \<Rightarrow> name a = ''Air Quality 1:2'' \<and> system_number a = 1 \<and> zone_number a = 2
    | Inl e \<Rightarrow> False)"
proof -
  let ?p = "[(''device_id'', JStr ''aq1''),
             (''meta'', JDict [(''systemNumber'', JStr ''1''), (''zoneNumber'', JStr ''2'')]),
             (''name'', JNull)]"
  have h1: "map_of ?p (api sample_env API_DEVICE_ID) = Some (JStr ''aq1'')"
    by (simp add: sample_env_def)
  have h2: "sub_object_ok (dict_get ?p (api sample_env API_META))"
    by (simp add: sample_env_def dict_get_def sub_object_ok_def)
  have h3: "sub_object_ok (dict_get ?p (api sample_env API_CONFIG))"
    by (simp add: sample_env_def dict_get_def sub_object_ok_def)
  have loc: "spec_sub_data sample_env ?p =
      JDict [(''systemNumber'', JStr ''1''), (''zoneNumber'', JStr ''2'')]"
    by (simp add: spec_sub_data_def sample_env_def dict_get_def dict_has_def)
  have h4: "int_at (spec_sub_data sample_env ?p) (api sample_env API_SYSTEM_NUMBER) = Inr 1"
    unfolding loc
    by (simp add: int_at_def sample_env_def int_of_string_def strip_def is_space_def
        parse_nat_def is_digit_def digit_val_def)
  have h5: "int_at (spec_sub_data sample_env ?p) (api sample_env API_ZONE_NUMBER) = Inr 2"
    unfolding loc
    by (simp add: int_at_def sample_env_def int_of_string_def strip_def is_space_def
        parse_nat_def is_digit_def digit_val_def)
  from AirQuality_init_located [OF h1 h2 h3 h4 h5, of "''inst1''" "''ws1''"]
  obtain a where a: "AirQuality_init sample_env ''inst1'' ''ws1'' ?p = Inr a"
      "system_number a = 1" "zone_number a = 2"
      "name a = (case parse_str sample_env (dict_get ?p (api sample_env API_NAME)) of
                   Some device_name \<Rightarrow> device_name
                 | None \<Rightarrow> ''Air Quality '' @ str_of_int 1 @ '':'' @ str_of_int 2)"
    by blast
  from a(4) have "name a = ''Air Quality 1:2''"
    by (simp add: sample_env_def dict_get_def str_of_int_def digit_char_def)
  with a(1,2,3) h1 show ?thesis by simp
qed

section \<open>The quality level in data()\<close>

lemma put_some_other: "k \<noteq> k' \<Longrightarrow> put_some k' wrap x data k = data k"
  by (simp add: put_some_def split: option.split)

lemma quality_fold_at:
  "distinct (map fst tbl) \<Longrightarrow>
     fold (\<lambda>item data. if JStr q = fst item then data(k \<mapsto> PStr (snd item)) else data) tbl data k =
       (case map_of tbl (JStr q) of Some n \<Rightarrow> Some (PStr n) | None \<Rightarrow> data k)"
proof (induction tbl arbitrary: data)
  case Nil
  then show ?case by simp
next
  case (Cons item tbl)
  obtain key n where item: "item = (key, n)" by (cases item)
  from Cons.prems item have dist: "distinct (map fst tbl)" and fresh: "key \<notin> fst ` set tbl"
    by simp_all
  show ?case
  proof (cases "JStr q = key")
    case True
    with fresh have "map_of tbl (JStr q) = None"
      by (simp add: map_of_eq_None_iff)
    with True item Cons.IH [OF dist] show ?thesis by simp
  next
    case False
    with item Cons.IH [OF dist] show ?thesis by simp
  qed
qed

lemma put_quality_at:
  "distinct (map fst (API_AQ_QUALITY_LEVELS c)) \<Longrightarrow>
     put_quality c qv data (azd c AZD_AQ_QUALITY) =
       (case qv of
          None \<Rightarrow> data (azd c AZD_AQ_QUALITY)
        | Some q \<Rightarrow>
            (case map_of (API_AQ_QUALITY_LEVELS c) (JStr q) of
               Some n \<Rightarrow> Some (PStr n) | None \<Rightarrow> data (azd c AZD_AQ_QUALITY)))"
  by (simp add: put_quality_def quality_loop_def quality_fold_at split: option.split)

lemma Device_data_quality:
  assumes "distinct (map fst (API_AQ_QUALITY_LEVELS c))" and "quality_key_apart c"
  shows "Device_data c h d (azd c AZD_AQ_QUALITY) =
           (case get_aq_quality h d of
              None \<Rightarrow> None
            | Some q \<Rightarrow> map_option PStr (map_of (API_AQ_QUALITY_LEVELS c) (JStr q)))"
  using assms(2) unfolding quality_key_apart_def Device_data_def Let_def
  by (simp add: put_some_other put_quality_at [OF assms(1)] split: option.split)

lemma AirQuality_data_quality:
  assumes "distinct (map fst (API_AQ_QUALITY_LEVELS c))" and "quality_key_apart c"
  shows "AirQuality_data c h a (azd c AZD_AQ_QUALITY) =
           (case get_aq_quality h a of
              None \<Rightarrow> None
            | Some q \<Rightarrow> map_option PStr (map_of (API_AQ_QUALITY_LEVELS c) (JStr q)))"
  using assms(2) Device_data_quality [OF assms, of h a]
  unfolding quality_key_apart_def AirQuality_data_def Let_def
  by (simp add: put_some_other put_quality_at [OF assms(1)] split: option.split)

text \<open>
  C8. Let the level table have one item per key and the quality key be the string of no
  other output key. In the mapping returned by \<^verbatim>\<open>Device.data()\<close>, and in the one returned
  by \<^verbatim>\<open>AirQuality.data()\<close>: if the resolved level (\<open>get_aq_quality\<close>, through delegation) is a
  key of the table, the quality key is bound to the name of that item; if the level is
  \<^verbatim>\<open>None\<close> or no key of the table, the mapping has no quality key.
\<close>

theorem quality_level_translation:
  assumes "distinct (map fst (API_AQ_QUALITY_LEVELS c))" and "quality_key_apart c"
  shows "(get_aq_quality h d = Some q \<and> (JStr q, level_name) \<in> set (API_AQ_QUALITY_LEVELS c) \<longrightarrow>
            Device_data c h d (azd c AZD_AQ_QUALITY) = Some (PStr level_name)) \<and>
         (get_aq_quality h d = None \<or>
          (get_aq_quality h d = Some q \<and> JStr q \<notin> fst ` set (API_AQ_QUALITY_LEVELS c)) \<longrightarrow>
            Device_data c h d (azd c AZD_AQ_QUALITY) = None) \<and>
         (get_aq_quality h a = Some q \<and> (JStr q, level_name) \<in> set (API_AQ_QUALITY_LEVELS c) \<longrightarrow>
            AirQuality_data c h a (azd c AZD_AQ_QUALITY) = Some (PStr level_name)) \<and>
         (get_aq_quality h a = None \<or>
          (get_aq_quality h a = Some q \<and> JStr q \<notin> fst ` set (API_AQ_QUALITY_LEVELS c)) \<longrightarrow>
            AirQuality_data c h a (azd c AZD_AQ_QUALITY) = None)"
  using assms(1)
  by (auto simp: Device_data_quality [OF assms] AirQuality_data_quality [OF assms]
      map_of_eq_None_iff)

theorem quality_level_translation_witness:
  "distinct (map fst (API_AQ_QUALITY_LEVELS sample_env)) \<and> quality_key_apart sample_env \<and>
   get_aq_quality sample_heap sample_device = Some ''2'' \<and>
   Device_data sample_env sample_heap sample_device (azd sample_env AZD_AQ_QUALITY)
     = Some (PStr ''regular'') \<and>
   Device_data sample_env sample_heap (sample_device\<lparr>aq_quality := Some ''9''\<rparr>)
     (azd sample_env AZD_AQ_QUALITY) = None \<and>
   AirQuality_data sample_env sample_heap sample_air_quality (azd sample_env AZD_AQ_QUALITY)
     = Some (PStr ''good'') \<and>
   AirQuality_data sample_env sample_heap (sample_air_quality\<lparr>aq_quality := None\<rparr>)
     (azd sample_env AZD_AQ_QUALITY) = None"
proof -
  have h1: "distinct (map fst (API_AQ_QUALITY_LEVELS sample_env))"
    by (simp add: sample_env_def)
  have h2: "quality_key_apart sample_env"
    by (simp add: quality_key_apart_def sample_env_def)
  have q1: "get_aq_quality sample_heap sample_device = Some ''2''"
    by (simp add: get_aq_quality_def sample_device_def)
  have q2: "get_aq_quality sample_heap (sample_device\<lparr>aq_quality := Some ''9''\<rparr>) = Some ''9''"
    by (simp add: get_aq_quality_def sample_device_def)
  have q3: "get_aq_quality sample_heap sample_air_quality = Some ''1''"
    by (simp add: get_aq_quality_def sample_air_quality_def sample_device_def
        Device.extend_def AirQuality.fields_def)
  have q4: "get_aq_quality sample_heap (sample_air_quality\<lparr>aq_quality := None\<rparr>) = None"
    by (simp add: get_aq_quality_def sample_air_quality_def sample_device_def
        Device.extend_def AirQuality.fields_def)
  have t1: "(JStr ''2'', ''regular'') \<in> set (API_AQ_QUALITY_LEVELS sample_env)"
    and t2: "JStr ''9'' \<notin> fst ` set (API_AQ_QUALITY_LEVELS sample_env)"
    and t3: "(JStr ''1'', ''good'') \<in> set (API_AQ_QUALITY_LEVELS sample_env)"
    by (simp_all add: sample_env_def)
  from quality_level_translation [OF h1 h2, of sample_heap sample_device "''2''" "''regular''"
      sample_air_quality] q1 t1
  have r1: "Device_data sample_env sample_heap sample_device (azd sample_env AZD_AQ_QUALITY)
     = Some (PStr ''regular'')" by blast
  from quality_level_translation [OF h1 h2, of sample_heap
      "sample_device\<lparr>aq_quality := Some ''9''\<rparr>" "''9''" "''x''" sample_air_quality] q2 t2
  have r2: "Device_data sample_env sample_heap (sample_device\<lparr>aq_quality := Some ''9''\<rparr>)
     (azd sample_env AZD_AQ_QUALITY) = None" by blast
  from quality_level_translation [OF h1 h2, of sample_heap sample_device "''1''" "''good''"
      sample_air_quality] q3 t3
  have r3: "AirQuality_data sample_env sample_heap sample_air_quality (azd sample_env AZD_AQ_QUALITY)
     = Some (PStr ''good'')" by blast
  from quality_level_translation [OF h1 h2, of sample_heap sample_device "''1''" "''good''"
      "sample_air_quality\<lparr>aq_quality := None\<rparr>"] q4
  have r4: "AirQuality_data sample_env sample_heap (sample_air_quality\<lparr>aq_quality := None\<rparr>)
     (azd sample_env AZD_AQ_QUALITY) = None" by blast
  from h1 h2 q1 r1 r2 r3 r4 show ?thesis by blast
qed

end
